theory Spec2Isabelle
  imports Complex_Main "HOL-Library.Word" "HOL-Library.Multiset"
begin

unbundle bit_operations_syntax

section \<open>Vulkan data read and written by \<open>vulkan_state.cpp\<close>\<close>

text \<open>
  Native handles are opaque pointers; the only thing the code ever asks of one is whether
  it is the null handle (\<open>if (vk_physical_device)\<close>). A handle is a number and
  \<open>VK_NULL_HANDLE\<close> is 0.
\<close>

type_synonym handle = nat

definition VK_NULL_HANDLE :: handle where
  "VK_NULL_HANDLE = 0"

text \<open>\<open>VkQueueFamilyProperties\<close>: the two fields the selection loop reads, both 32 bits wide.\<close>

record queue_family_properties =
  queueFlags :: "32 word"
  queueCount :: "32 word"

text \<open>\<open>vk::QueueFlagBits::eGraphics\<close> is \<open>VK_QUEUE_GRAPHICS_BIT = 0x00000001\<close>.\<close>

definition eGraphics :: "32 word" where
  "eGraphics = 1"

text \<open>\<open>VkPhysicalDeviceProperties\<close>: the four fields \<open>log_info\<close> prints. \<open>deviceName\<close> is the
  content of the fixed-size character array.\<close>

record physical_device_properties =
  vendorID :: "32 word"
  deviceID :: "32 word"
  deviceName :: string
  driverVersion :: "32 word"

text \<open>\<open>vk::ApplicationInfo\<close> and \<open>vk::InstanceCreateInfo\<close>; a null C string is \<open>None\<close>.\<close>

record application_info =
  pApplicationName :: "string option"
  applicationVersion :: "32 word"
  pEngineName :: "string option"
  engineVersion :: "32 word"
  apiVersion :: "32 word"

definition ApplicationInfo :: application_info where
  "ApplicationInfo =
     \<lparr>pApplicationName = None, applicationVersion = 0, pEngineName = None,
      engineVersion = 0, apiVersion = 0\<rparr>"

record instance_create_info =
  ici_flags :: "32 word"
  pApplicationInfo :: "application_info option"
  ppEnabledLayerNames :: "string list"
  ppEnabledExtensionNames :: "string list"

definition InstanceCreateInfo :: instance_create_info where
  "InstanceCreateInfo =
     \<lparr>ici_flags = 0, pApplicationInfo = None, ppEnabledLayerNames = [],
      ppEnabledExtensionNames = []\<rparr>"

definition VK_KHR_SURFACE_EXTENSION_NAME :: string where
  "VK_KHR_SURFACE_EXTENSION_NAME = ''VK_KHR_surface''"

definition VK_KHR_SWAPCHAIN_EXTENSION_NAME :: string where
  "VK_KHR_SWAPCHAIN_EXTENSION_NAME = ''VK_KHR_swapchain''"

text \<open>\<open>vk::DeviceQueueCreateInfo\<close>. \<open>pQueuePriorities\<close> points at \<open>queueCount\<close> floats; the
  model keeps the floats read through the pointer. The only float in the file is the
  literal \<open>1.0f\<close>, which is exact, so priorities are reals.\<close>

record device_queue_create_info =
  qci_queueFamilyIndex :: nat
  qci_queueCount :: nat
  qci_pQueuePriorities :: "real list"

definition DeviceQueueCreateInfo :: device_queue_create_info where
  "DeviceQueueCreateInfo =
     \<lparr>qci_queueFamilyIndex = 0, qci_queueCount = 0, qci_pQueuePriorities = []\<rparr>"

record physical_device_features =
  samplerAnisotropy :: bool

definition PhysicalDeviceFeatures :: physical_device_features where
  "PhysicalDeviceFeatures = \<lparr>samplerAnisotropy = False\<rparr>"

record device_create_info =
  pQueueCreateInfos :: "device_queue_create_info list"
  dci_ppEnabledExtensionNames :: "string list"
  pEnabledFeatures :: "physical_device_features option"

definition DeviceCreateInfo :: device_create_info where
  "DeviceCreateInfo =
     \<lparr>pQueueCreateInfos = [], dci_ppEnabledExtensionNames = [], pEnabledFeatures = None\<rparr>"

datatype command_pool_create_flag = eTransient | eResetCommandBuffer | eProtected

record command_pool_create_info =
  cpci_queueFamilyIndex :: nat
  cpci_flags :: "command_pool_create_flag list"

definition CommandPoolCreateInfo :: command_pool_create_info where
  "CommandPoolCreateInfo = \<lparr>cpci_queueFamilyIndex = 0, cpci_flags = []\<rparr>"

section \<open>Errors\<close>

text \<open>
  The file throws one exception of its own, \<open>std::runtime_error\<close> with a fixed message;
  every Vulkan-Hpp call that creates or enumerates may throw the library's own error.
\<close>

datatype error = RuntimeError string | NativeApiError

definition NoSuitableDeviceError :: error where
  "NoSuitableDeviceError = RuntimeError ''No suitable Vulkan physical devices found''"

section \<open>The collaborators: window system interface and driver\<close>

text \<open>
  \<open>VulkanWSI\<close> (three queries) and the Vulkan driver (everything else) are outside the
  file. They are a record of functions, so every theorem holds for every collaborator.
  A creating or enumerating call returns \<open>Inl\<close> where the C++ call throws.
\<close>

record env =
  vulkan_extensions :: "string list"
  is_physical_device_supported :: "handle \<Rightarrow> bool"
  physical_device_queue_family_indices :: "handle \<Rightarrow> nat list"
  createInstance :: "instance_create_info \<Rightarrow> error + handle"
  enumeratePhysicalDevices :: "handle \<Rightarrow> error + handle list"
  getQueueFamilyProperties :: "handle \<Rightarrow> queue_family_properties list"
  getProperties :: "handle \<Rightarrow> physical_device_properties"
  createDevice :: "handle \<Rightarrow> device_create_info \<Rightarrow> error + handle"
  getQueue :: "handle \<Rightarrow> nat \<Rightarrow> nat \<Rightarrow> handle"
  createCommandPool :: "handle \<Rightarrow> command_pool_create_info \<Rightarrow> error + handle"

text \<open>The calls the code makes on the driver that create, use or destroy a native object,
  in the order it makes them.\<close>

datatype native_call =
    CreateInstance instance_create_info handle
  | CreateDevice handle device_create_info handle
  | GetQueue handle nat nat
  | CreateCommandPool handle command_pool_create_info handle
  | DestroyInstance handle
  | DestroyDevice handle
  | DestroyCommandPool handle handle

section \<open>The ownership wrapper\<close>

text \<open>
  Modelled from the spec: \<open>ManagedResource<T>\<close> (the spec's OwningResource) is declared in
  a header that is not among the sources. Section 4.1 of the spec: it is constructed from
  a resource value and a destructor callback; on move the source is emptied and its
  destructor suppressed; on destruction or replacement, if the wrapper is non-empty, the
  callback is invoked exactly once and the wrapper becomes empty; a wrapper that was never
  assigned destroys nothing. Section 9: emptiness is a state of its own, not a null value
  of the resource.
\<close>

datatype ('r, 'd) managed_resource = Empty | Owning 'r 'd

text \<open>Modelled from the spec: the callbacks a wrapper invokes when it is destroyed or
  replaced ("if the wrapper is non-empty, the destructor callback is invoked exactly
  once"): none when empty, its own callback on its own resource otherwise.\<close>

fun mr_release :: "('r, 'd) managed_resource \<Rightarrow> ('d \<times> 'r) list" where
  "mr_release Empty = []"
| "mr_release (Owning r d) = [(d, r)]"

text \<open>Modelled from the spec: destruction at scope exit ("then the wrapper becomes
  empty"). The invoked callbacks and the wrapper afterwards.\<close>

definition mr_destroy :: "('r, 'd) managed_resource \<Rightarrow> ('d \<times> 'r) list \<times> ('r, 'd) managed_resource" where
  "mr_destroy w = (mr_release w, Empty)"

text \<open>Modelled from the spec: move construction ("on move, the source is emptied and its
  destructor is suppressed"). The new wrapper and the source afterwards.\<close>

definition mr_move :: "('r, 'd) managed_resource \<Rightarrow> ('r, 'd) managed_resource \<times> ('r, 'd) managed_resource" where
  "mr_move rhs = (rhs, Empty)"

text \<open>Modelled from the spec: move assignment \<open>lhs = std::move(rhs)\<close>, the spec's
  reassignment or explicit replacement. The invoked callbacks, the target afterwards and
  the source afterwards.\<close>

definition mr_move_assign ::
  "('r, 'd) managed_resource \<Rightarrow> ('r, 'd) managed_resource \<Rightarrow>
   ('d \<times> 'r) list \<times> ('r, 'd) managed_resource \<times> ('r, 'd) managed_resource" where
  "mr_move_assign lhs rhs = (mr_release lhs, rhs, Empty)"

text \<open>Modelled from the spec: explicit reset, which is replacement by an empty wrapper.\<close>

definition mr_reset :: "('r, 'd) managed_resource \<Rightarrow> ('d \<times> 'r) list \<times> ('r, 'd) managed_resource" where
  "mr_reset w = (mr_release w, Empty)"

text \<open>Modelled from the spec: read access to the underlying value. An empty wrapper has no
  resource; read as a handle it is the null handle.\<close>

fun mr_raw :: "(handle, 'd) managed_resource \<Rightarrow> handle" where
  "mr_raw Empty = VK_NULL_HANDLE"
| "mr_raw (Owning r d) = r"

section \<open>The context\<close>

text \<open>The three destructor lambdas of the file, by the line that writes them.\<close>

datatype destructor =
    InstanceDestroy       \<comment> \<open>\<open>[] (auto& i) { i.destroy(); }\<close>\<close>
  | DeviceDestroy         \<comment> \<open>\<open>[] (auto& d) { d.destroy(); }\<close>\<close>
  | CommandPoolDestroy    \<comment> \<open>\<open>[this] (auto& cp) { this->device().destroyCommandPool(cp); }\<close>\<close>

text \<open>The members of \<open>VulkanState\<close> that the file assigns.\<close>

record vulkan_state =
  vk_instance :: "(handle, destructor) managed_resource"
  vk_device :: "(handle, destructor) managed_resource"
  vk_command_pool :: "(handle, destructor) managed_resource"
  vk_physical_device :: handle
  vk_graphics_queue :: handle
  vk_graphics_queue_family_index :: nat

text \<open>The accessors: \<open>instance()\<close>, \<open>device()\<close>, \<open>physical_device()\<close>,
  \<open>graphics_queue_family_index()\<close>.\<close>

definition instance_of :: "vulkan_state \<Rightarrow> handle" where
  "instance_of st = mr_raw (vk_instance st)"

definition device :: "vulkan_state \<Rightarrow> handle" where
  "device st = mr_raw (vk_device st)"

definition physical_device :: "vulkan_state \<Rightarrow> handle" where
  "physical_device st = vk_physical_device st"

definition graphics_queue_family_index :: "vulkan_state \<Rightarrow> nat" where
  "graphics_queue_family_index st = vk_graphics_queue_family_index st"

text \<open>Running a destructor lambda on its resource. The command pool's lambda captures
  \<open>this\<close> and reads \<open>device()\<close> when it runs, not when it was made.\<close>

fun run_destructor :: "vulkan_state \<Rightarrow> destructor \<times> handle \<Rightarrow> native_call" where
  "run_destructor st (InstanceDestroy, i) = DestroyInstance i"
| "run_destructor st (DeviceDestroy, d) = DestroyDevice d"
| "run_destructor st (CommandPoolDestroy, cp) = DestroyCommandPool (device st) cp"

text \<open>A member function of the model takes the members and the calls made so far and
  returns the exception it throws, if any, the members and the calls afterwards.\<close>

type_synonym outcome = "error option \<times> vulkan_state \<times> native_call list"

section \<open>\<open>VulkanState::choose_physical_device\<close>\<close>

text \<open>The inner loop over \<open>queue_families\<close>, with the counter \<open>queue_index\<close>. The counter is a
  C++ \<open>int\<close>; a device reports its family count in 32 bits and real counts are a handful,
  so the counter is a natural number.\<close>

fun scan_queue_families ::
  "handle \<Rightarrow> queue_family_properties list \<Rightarrow> nat \<Rightarrow> vulkan_state \<Rightarrow> vulkan_state" where
  "scan_queue_families pd [] queue_index st = st"
| "scan_queue_families pd (queue_family # rest) queue_index st =
     (if queueCount queue_family > 0 \<and> queueFlags queue_family AND eGraphics \<noteq> 0
      then st\<lparr>vk_physical_device := pd, vk_graphics_queue_family_index := queue_index\<rparr>
      else scan_queue_families pd rest (queue_index + 1) st)"

text \<open>The outer loop over \<open>physical_devices\<close>: \<open>continue\<close> on an unsupported device, \<open>break\<close>
  once the member \<open>vk_physical_device\<close> is not the null handle.\<close>

fun scan_physical_devices :: "env \<Rightarrow> handle list \<Rightarrow> vulkan_state \<Rightarrow> vulkan_state" where
  "scan_physical_devices e [] st = st"
| "scan_physical_devices e (pd # rest) st =
     (if \<not> is_physical_device_supported e pd then scan_physical_devices e rest st
      else
        let st' = scan_queue_families pd (getQueueFamilyProperties e pd) 0 st
        in if vk_physical_device st' \<noteq> VK_NULL_HANDLE then st'
           else scan_physical_devices e rest st')"

definition choose_physical_device :: "env \<Rightarrow> vulkan_state \<Rightarrow> native_call list \<Rightarrow> outcome" where
  "choose_physical_device e st tr =
     (case enumeratePhysicalDevices e (instance_of st) of
        Inl err \<Rightarrow> (Some err, st, tr)
      | Inr physical_devices \<Rightarrow>
          let st' = scan_physical_devices e physical_devices st
          in if vk_physical_device st' = VK_NULL_HANDLE
             then (Some (RuntimeError ''No suitable Vulkan physical devices found''), st', tr)
             else (None, st', tr))"

text \<open>The predicates of the claims: a queue family the inner loop accepts, and a device
  the two loops together accept.\<close>

definition graphics_capable :: "queue_family_properties \<Rightarrow> bool" where
  "graphics_capable qf = (queueCount qf > 0 \<and> queueFlags qf AND eGraphics \<noteq> 0)"

definition suitable :: "env \<Rightarrow> handle \<Rightarrow> bool" where
  "suitable e pd =
     (is_physical_device_supported e pd \<and>
      list_ex graphics_capable (getQueueFamilyProperties e pd))"

text \<open>\<open>k\<close> is the lowest position of \<open>xs\<close> at which \<open>P\<close> holds.\<close>

definition first_at :: "('a \<Rightarrow> bool) \<Rightarrow> 'a list \<Rightarrow> nat \<Rightarrow> bool" where
  "first_at P xs k = (k < length xs \<and> P (xs ! k) \<and> list_all (\<lambda>x. \<not> P x) (take k xs))"

section \<open>\<open>VulkanState::create_instance\<close>\<close>

text \<open>
  The statement \<open>member = ManagedResource<T>{raw, destructor};\<close> of the three creating
  functions: a temporary wrapper is constructed, move-assigned to the member and destroyed
  at the end of the statement. The callbacks invoked on the way and the member afterwards.
\<close>

definition assign_new ::
  "(handle, destructor) managed_resource \<Rightarrow> handle \<Rightarrow> destructor \<Rightarrow>
   (destructor \<times> handle) list \<times> (handle, destructor) managed_resource" where
  "assign_new member raw d =
     (let tmp = Owning raw d;
          (released, member', tmp') = mr_move_assign member tmp;
          (released_tmp, tmp'') = mr_destroy tmp'
      in (released @ released_tmp, member'))"

text \<open>Lines 51 to 60: the create info built from the collaborator's extension list.\<close>

definition instance_create_info_for :: "string list \<Rightarrow> instance_create_info" where
  "instance_create_info_for wsi_extensions =
     (let app_info = ApplicationInfo\<lparr>pApplicationName := Some ''vkmark''\<rparr>;
          enabled_extensions = wsi_extensions @ [VK_KHR_SURFACE_EXTENSION_NAME]
      in InstanceCreateInfo
           \<lparr>pApplicationInfo := Some app_info,
            ppEnabledExtensionNames := enabled_extensions\<rparr>)"

definition create_instance :: "env \<Rightarrow> vulkan_state \<Rightarrow> native_call list \<Rightarrow> outcome" where
  "create_instance e st tr =
     (let create_info = instance_create_info_for (vulkan_extensions e)
      in case createInstance e create_info of
           Inl err \<Rightarrow> (Some err, st, tr)
         | Inr i \<Rightarrow>
             let (released, member) = assign_new (vk_instance st) i InstanceDestroy
             in (None, st\<lparr>vk_instance := member\<rparr>,
                 tr @ [CreateInstance create_info i] @ map (run_destructor st) released))"

section \<open>\<open>VulkanState::create_device\<close>\<close>

text \<open>Lines 112 to 117: \<open>std::find\<close> for the graphics family, \<open>push_back\<close> when it reaches
  \<open>end()\<close>.\<close>

definition merge_graphics_family :: "nat list \<Rightarrow> nat \<Rightarrow> nat list" where
  "merge_graphics_family queue_family_indices g =
     (if find (\<lambda>index. index = g) queue_family_indices = None
      then queue_family_indices @ [g]
      else queue_family_indices)"

text \<open>Lines 119 to 127: the loop that pushes one create info per element.\<close>

primrec push_queue_create_infos ::
  "nat list \<Rightarrow> real \<Rightarrow> device_queue_create_info list \<Rightarrow> device_queue_create_info list" where
  "push_queue_create_infos [] priority queue_create_infos = queue_create_infos"
| "push_queue_create_infos (index # rest) priority queue_create_infos =
     push_queue_create_infos rest priority
       (queue_create_infos @
        [DeviceQueueCreateInfo
           \<lparr>qci_queueFamilyIndex := index, qci_queueCount := 1,
            qci_pQueuePriorities := [priority]\<rparr>])"

text \<open>Lines 101 to 143: the create info built from the collaborator's family list and the
  chosen graphics family. The two \<open>Log::debug\<close> calls in between write a trace line each
  and touch nothing that the function uses afterwards; they are not part of the model.\<close>

definition device_create_info_for :: "nat list \<Rightarrow> nat \<Rightarrow> device_create_info" where
  "device_create_info_for wsi_indices g =
     (let priority = 1.0;
          queue_family_indices = merge_graphics_family wsi_indices g;
          queue_create_infos = push_queue_create_infos queue_family_indices priority [];
          enabled_extensions = [VK_KHR_SWAPCHAIN_EXTENSION_NAME];
          device_features = PhysicalDeviceFeatures\<lparr>samplerAnisotropy := True\<rparr>
      in DeviceCreateInfo
           \<lparr>pQueueCreateInfos := queue_create_infos,
            dci_ppEnabledExtensionNames := enabled_extensions,
            pEnabledFeatures := Some device_features\<rparr>)"

definition create_device :: "env \<Rightarrow> vulkan_state \<Rightarrow> native_call list \<Rightarrow> outcome" where
  "create_device e st tr =
     (let device_create_info =
            device_create_info_for
              (physical_device_queue_family_indices e (physical_device st))
              (graphics_queue_family_index st)
      in case createDevice e (physical_device st) device_create_info of
           Inl err \<Rightarrow> (Some err, st, tr)
         | Inr d \<Rightarrow>
             let (released, member) = assign_new (vk_device st) d DeviceDestroy;
                 st1 = st\<lparr>vk_device := member\<rparr>;
                 tr1 = tr @ [CreateDevice (physical_device st) device_create_info d]
                          @ map (run_destructor st) released;
                 q = getQueue e (device st1) (graphics_queue_family_index st1) 0
             in (None, st1\<lparr>vk_graphics_queue := q\<rparr>,
                 tr1 @ [GetQueue (device st1) (graphics_queue_family_index st1) 0]))"

text \<open>The queues a create-info list asks for in one family: the sum of the queue counts
  of the entries that name the family.\<close>

definition queues_requested :: "device_queue_create_info list \<Rightarrow> nat \<Rightarrow> nat" where
  "queues_requested infos family =
     sum_list (map qci_queueCount (filter (\<lambda>q. qci_queueFamilyIndex q = family) infos))"

section \<open>\<open>VulkanState::create_command_pool\<close>\<close>

definition create_command_pool :: "env \<Rightarrow> vulkan_state \<Rightarrow> native_call list \<Rightarrow> outcome" where
  "create_command_pool e st tr =
     (let command_pool_create_info =
            CommandPoolCreateInfo
              \<lparr>cpci_queueFamilyIndex := graphics_queue_family_index st,
               cpci_flags := [eResetCommandBuffer]\<rparr>
      in case createCommandPool e (device st) command_pool_create_info of
           Inl err \<Rightarrow> (Some err, st, tr)
         | Inr cp \<Rightarrow>
             let (released, member) = assign_new (vk_command_pool st) cp CommandPoolDestroy
             in (None, st\<lparr>vk_command_pool := member\<rparr>,
                 tr @ [CreateCommandPool (device st) command_pool_create_info cp]
                    @ map (run_destructor st) released))"

section \<open>Construction and destruction of \<open>VulkanState\<close>\<close>

text \<open>
  Modelled from the spec: the class declaration is in a header that is not among the
  sources, so the order in which the three owning members are destroyed is taken from
  section 3 of the spec, "destruction order is strictly reverse of creation order:
  CommandPool before Device before Instance". Each member's callbacks run on the members
  as they are at that moment. The calls made and the members afterwards.
\<close>

definition destroy_members :: "vulkan_state \<Rightarrow> native_call list \<times> vulkan_state" where
  "destroy_members st =
     (let (r3, w3) = mr_destroy (vk_command_pool st);
          c3 = map (run_destructor st) r3;
          st3 = st\<lparr>vk_command_pool := w3\<rparr>;
          (r2, w2) = mr_destroy (vk_device st3);
          c2 = map (run_destructor st3) r2;
          st2 = st3\<lparr>vk_device := w2\<rparr>;
          (r1, w1) = mr_destroy (vk_instance st2);
          c1 = map (run_destructor st2) r1;
          st1 = st2\<lparr>vk_instance := w1\<rparr>
      in (c3 @ c2 @ c1, st1))"

text \<open>
  Modelled from the spec: the members before the constructor body runs. The wrappers are
  empty ("a no-op resource (never assigned) is also valid") and the handles null; the
  header that would say what the index member starts as is not among the sources, so its
  first value \<open>u\<close> is left open.
\<close>

definition initial_state :: "nat \<Rightarrow> vulkan_state" where
  "initial_state u =
     \<lparr>vk_instance = Empty, vk_device = Empty, vk_command_pool = Empty,
      vk_physical_device = VK_NULL_HANDLE, vk_graphics_queue = VK_NULL_HANDLE,
      vk_graphics_queue_family_index = u\<rparr>"

text \<open>Sequencing of statements: the next one runs only when nothing was thrown.\<close>

definition and_then ::
  "outcome \<Rightarrow> (vulkan_state \<Rightarrow> native_call list \<Rightarrow> outcome) \<Rightarrow> outcome" where
  "and_then r f =
     (case r of (None, st, tr) \<Rightarrow> f st tr | (Some err, st, tr) \<Rightarrow> (Some err, st, tr))"

text \<open>The constructor, lines 31 to 37. An exception leaving the body destroys the members
  and no object exists; otherwise the object and the calls made.\<close>

definition VulkanState_ctor :: "env \<Rightarrow> nat \<Rightarrow> (error + vulkan_state) \<times> native_call list" where
  "VulkanState_ctor e u =
     (case and_then (and_then (and_then
             (create_instance e (initial_state u) [])
             (choose_physical_device e))
             (create_device e))
             (create_command_pool e) of
        (None, st, tr) \<Rightarrow> (Inr st, tr)
      | (Some err, st, tr) \<Rightarrow> (Inl err, tr @ fst (destroy_members st)))"

text \<open>The implicit destructor: the calls it makes.\<close>

definition VulkanState_dtor :: "vulkan_state \<Rightarrow> native_call list" where
  "VulkanState_dtor st = fst (destroy_members st)"

section \<open>Lifetimes of native objects\<close>

text \<open>
  The lifetime rule of section 3 of the spec ("Device and Instance are never destroyed
  while any resource depending on them is still live"), as a replay of driver calls: what
  is allocated after a sequence of calls, and whether every call was made on live
  objects: a device is created under a live instance, a queue is fetched and a pool
  created and destroyed on a live device, a device is destroyed only when no pool of its
  own is left, an instance only when no device is left. \<open>None\<close> is a violation.
\<close>

datatype native_object = Instance handle | Device handle | CommandPool handle handle

fun is_instance :: "native_object \<Rightarrow> bool" where
  "is_instance (Instance i) = True"
| "is_instance (Device d) = False"
| "is_instance (CommandPool d cp) = False"

fun is_device :: "native_object \<Rightarrow> bool" where
  "is_device (Instance i) = False"
| "is_device (Device d) = True"
| "is_device (CommandPool d cp) = False"

fun is_pool_of :: "handle \<Rightarrow> native_object \<Rightarrow> bool" where
  "is_pool_of d (Instance i) = False"
| "is_pool_of d (Device d') = False"
| "is_pool_of d (CommandPool d' cp) = (d' = d)"

fun lifetime_step :: "native_object list \<Rightarrow> native_call \<Rightarrow> native_object list option" where
  "lifetime_step live (CreateInstance info i) = Some (Instance i # live)"
| "lifetime_step live (CreateDevice pd info d) =
     (if list_ex is_instance live then Some (Device d # live) else None)"
| "lifetime_step live (GetQueue d family k) =
     (if Device d \<in> set live then Some live else None)"
| "lifetime_step live (CreateCommandPool d info cp) =
     (if Device d \<in> set live then Some (CommandPool d cp # live) else None)"
| "lifetime_step live (DestroyCommandPool d cp) =
     (if Device d \<in> set live \<and> CommandPool d cp \<in> set live
      then Some (remove1 (CommandPool d cp) live) else None)"
| "lifetime_step live (DestroyDevice d) =
     (if Device d \<in> set live \<and> \<not> list_ex (is_pool_of d) live
      then Some (remove1 (Device d) live) else None)"
| "lifetime_step live (DestroyInstance i) =
     (if Instance i \<in> set live \<and> \<not> list_ex is_device live
      then Some (remove1 (Instance i) live) else None)"

fun lifetimes :: "native_object list \<Rightarrow> native_call list \<Rightarrow> native_object list option" where
  "lifetimes live [] = Some live"
| "lifetimes live (c # cs) =
     (case lifetime_step live c of None \<Rightarrow> None | Some live' \<Rightarrow> lifetimes live' cs)"

section \<open>\<open>VulkanState::log_info\<close>\<close>

text \<open>The conversions of \<open>printf\<close> that the format strings use: \<open>%X\<close> (unsigned, upper-case
  hexadecimal, no padding), \<open>%u\<close> (unsigned decimal) and \<open>%s\<close> (the characters before the
  first NUL).\<close>

definition hex_digit :: "nat \<Rightarrow> char" where
  "hex_digit d = ''0123456789ABCDEF'' ! d"

definition dec_digit :: "nat \<Rightarrow> char" where
  "dec_digit d = ''0123456789'' ! d"

function fmt_X :: "nat \<Rightarrow> string" where
  "fmt_X n = (if n < 16 then [hex_digit n] else fmt_X (n div 16) @ [hex_digit (n mod 16)])"
  by pat_completeness auto
termination
  by (relation "measure (\<lambda>n. n)") auto

function fmt_u :: "nat \<Rightarrow> string" where
  "fmt_u n = (if n < 10 then [dec_digit n] else fmt_u (n div 10) @ [dec_digit (n mod 10)])"
  by pat_completeness auto
termination
  by (relation "measure (\<lambda>n. n)") auto

declare fmt_X.simps [simp del] fmt_u.simps [simp del]

text \<open>Reading a numeral back, to say what the two numeric conversions print: the value
  of a digit character and of a digit string in a base.\<close>

definition digit_value :: "char \<Rightarrow> nat" where
  "digit_value c = (if of_char c < (58::nat) then of_char c - 48 else of_char c - 55)"

definition read_digits :: "nat \<Rightarrow> string \<Rightarrow> nat" where
  "read_digits base cs = foldl (\<lambda>acc c. acc * base + digit_value c) 0 cs"

definition fmt_s :: "string \<Rightarrow> string" where
  "fmt_s cs = takeWhile (\<lambda>c. c \<noteq> CHR 0x00) cs"

text \<open>
  Modelled from the spec: \<open>Log::info\<close> is declared in a header that is not among the
  sources; by section 4.6 of the spec it emits the formatted message. The function
  returns the messages it emits, in order, and the members afterwards.
\<close>

definition log_info :: "env \<Rightarrow> vulkan_state \<Rightarrow> string list \<times> vulkan_state" where
  "log_info e st =
     (let props = getProperties e (physical_device st)
      in ([''    Vendor ID:      0x'' @ fmt_X (unat (vendorID props)) @ [CHR 0x0A],
           ''    Device ID:      0x'' @ fmt_X (unat (deviceID props)) @ [CHR 0x0A],
           ''    Device Name:    '' @ fmt_s (deviceName props) @ [CHR 0x0A],
           ''    Driver Version: '' @ fmt_u (unat (driverVersion props)) @ [CHR 0x0A]],
          st))"

text \<open>Calling \<open>log_info\<close> \<open>n\<close> times in a row: everything emitted, and the members at the end.\<close>

fun log_info_times :: "nat \<Rightarrow> env \<Rightarrow> vulkan_state \<Rightarrow> string list \<times> vulkan_state" where
  "log_info_times 0 e st = ([], st)"
| "log_info_times (Suc n) e st =
     (let (out1, st1) = log_info e st; (out2, st2) = log_info_times n e st1
      in (out1 @ out2, st2))"

section \<open>Programs over ownership wrappers\<close>

text \<open>
  Modelled from the spec: what a program can do with wrappers, by section 4.1 of the spec
  (copying is disallowed). The wrappers of a program are numbered in the order they come
  into being; an operation that names a wrapper that does not exist does nothing.
\<close>

datatype ('r, 'd) mr_op =
    New 'r 'd            \<comment> \<open>a new wrapper constructed from a resource and a callback\<close>
  | MoveNew nat          \<comment> \<open>a new wrapper move-constructed from wrapper \<open>b\<close>\<close>
  | MoveAssign nat nat   \<comment> \<open>wrapper \<open>a\<close> is assigned from wrapper \<open>b\<close>\<close>
  | Reset nat            \<comment> \<open>explicit reset of wrapper \<open>a\<close>\<close>
  | ScopeExit nat        \<comment> \<open>wrapper \<open>a\<close> goes out of scope\<close>

text \<open>Modelled from the spec: one operation, on the wrappers and the log of callback
  invocations so far.\<close>

fun mr_exec ::
  "('r, 'd) mr_op \<Rightarrow> ('r, 'd) managed_resource list \<times> ('d \<times> 'r) list \<Rightarrow>
   ('r, 'd) managed_resource list \<times> ('d \<times> 'r) list" where
  "mr_exec (New r d) (ws, invoked) = (ws @ [Owning r d], invoked)"
| "mr_exec (MoveNew b) (ws, invoked) =
     (if b < length ws
      then let (new, src) = mr_move (ws ! b) in (ws[b := src] @ [new], invoked)
      else (ws, invoked))"
| "mr_exec (MoveAssign a b) (ws, invoked) =
     (if a < length ws \<and> b < length ws
      then let (released, lhs, rhs) = mr_move_assign (ws ! a) (ws ! b)
           in (ws[a := lhs, b := rhs], invoked @ released)
      else (ws, invoked))"
| "mr_exec (Reset a) (ws, invoked) =
     (if a < length ws
      then let (released, w) = mr_reset (ws ! a) in (ws[a := w], invoked @ released)
      else (ws, invoked))"
| "mr_exec (ScopeExit a) (ws, invoked) =
     (if a < length ws
      then let (released, w) = mr_destroy (ws ! a) in (ws[a := w], invoked @ released)
      else (ws, invoked))"

text \<open>Modelled from the spec: a program is run from left to right.\<close>

fun mr_run ::
  "('r, 'd) mr_op list \<Rightarrow> ('r, 'd) managed_resource list \<times> ('d \<times> 'r) list \<Rightarrow>
   ('r, 'd) managed_resource list \<times> ('d \<times> 'r) list" where
  "mr_run [] s = s"
| "mr_run (op # ops) s = mr_run ops (mr_exec op s)"

text \<open>Modelled from the spec: at the end of the program every wrapper goes out of scope,
  the last one made first.\<close>

definition mr_exit_all ::
  "('r, 'd) managed_resource list \<times> ('d \<times> 'r) list \<Rightarrow>
   ('r, 'd) managed_resource list \<times> ('d \<times> 'r) list" where
  "mr_exit_all s = mr_run (map ScopeExit (rev [0..<length (fst s)])) s"

text \<open>The callbacks that the wrappers of a program still owe: one for each wrapper that
  is not empty.\<close>

definition held :: "('r, 'd) managed_resource list \<Rightarrow> ('d \<times> 'r) multiset" where
  "held ws = sum_list (map (\<lambda>w. mset (mr_release w)) ws)"

text \<open>The wrappers a program constructs from a resource, as the callback and the resource.\<close>

fun constructed :: "('r, 'd) mr_op list \<Rightarrow> ('d \<times> 'r) list" where
  "constructed [] = []"
| "constructed (New r d # ops) = (d, r) # constructed ops"
| "constructed (op # ops) = constructed ops"

section \<open>Concrete collaborators\<close>

text \<open>
  A collaborator and a driver to run the code on: two physical devices with handles 11
  and 12, of which the window system supports only the second; three queue families
  each, the graphics bit with a nonzero queue count only on the third; presentation on
  family 1.
\<close>

definition example_env :: env where
  "example_env =
     \<lparr>vulkan_extensions = [''VK_KHR_xcb_surface''],
      is_physical_device_supported = (\<lambda>pd. pd = 12),
      physical_device_queue_family_indices = (\<lambda>pd. [1]),
      createInstance = (\<lambda>info. Inr 21),
      enumeratePhysicalDevices = (\<lambda>i. Inr [11, 12]),
      getQueueFamilyProperties =
        (\<lambda>pd. [\<lparr>queueFlags = 4, queueCount = 1\<rparr>,
               \<lparr>queueFlags = 1, queueCount = 0\<rparr>,
               \<lparr>queueFlags = 7, queueCount = 16\<rparr>]),
      getProperties =
        (\<lambda>pd. \<lparr>vendorID = 0x8086, deviceID = 0x1912,
               deviceName = ''Intel HD 530'' @ [CHR 0x00, CHR ''x''],
               driverVersion = 71307264\<rparr>),
      createDevice = (\<lambda>pd info. Inr 22),
      getQueue = (\<lambda>d family k. 23),
      createCommandPool = (\<lambda>d info. Inr 24)\<rparr>"

text \<open>The same, with a window system that supports no device.\<close>

definition headless_env :: env where
  "headless_env = example_env\<lparr>is_physical_device_supported := (\<lambda>pd. False)\<rparr>"

text \<open>The same, with a window system that lists presentation family 1 twice.\<close>

definition duplicate_env :: env where
  "duplicate_env = example_env\<lparr>physical_device_queue_family_indices := (\<lambda>pd. [1, 1])\<rparr>"

text \<open>The same, with a window system that needs no presentation family.\<close>

definition offscreen_env :: env where
  "offscreen_env = example_env\<lparr>physical_device_queue_family_indices := (\<lambda>pd. [])\<rparr>"

text \<open>The same, with a window system that presents on the families 3 and 1.\<close>

definition two_family_env :: env where
  "two_family_env = example_env\<lparr>physical_device_queue_family_indices := (\<lambda>pd. [3, 1])\<rparr>"

text \<open>The same, with a driver whose device name has a line break in it.\<close>

definition two_line_name_env :: env where
  "two_line_name_env =
     example_env
       \<lparr>getProperties :=
          (\<lambda>pd. \<lparr>vendorID = 0x8086, deviceID = 0x1912,
                 deviceName = ''A'' @ [CHR 0x0A] @ ''B'' @ [CHR 0x00],
                 driverVersion = 71307264\<rparr>)\<rparr>"

section \<open>Selection: the two loops\<close>

lemma scan_queue_families_none:
  "\<not> list_ex graphics_capable qfs \<Longrightarrow> scan_queue_families pd qfs n st = st"
  by (induction qfs arbitrary: n) (auto simp: graphics_capable_def)

lemma scan_queue_families_first:
  "first_at graphics_capable qfs k \<Longrightarrow>
   scan_queue_families pd qfs n st =
     st\<lparr>vk_physical_device := pd, vk_graphics_queue_family_index := n + k\<rparr>"
proof (induction qfs arbitrary: n k)
  case Nil
  then show ?case by (simp add: first_at_def)
next
  case (Cons qf qfs)
  show ?case
  proof (cases k)
    case 0
    with Cons.prems show ?thesis
      by (simp add: first_at_def graphics_capable_def)
  next
    case (Suc j)
    with Cons.prems have nq: "\<not> graphics_capable qf" and fj: "first_at graphics_capable qfs j"
      by (simp_all add: first_at_def)
    from Cons.IH [OF fj, of "n + 1"] nq Suc show ?thesis
      by (simp add: graphics_capable_def)
  qed
qed

lemma first_at_exists:
  "list_ex P xs \<Longrightarrow> \<exists>k. first_at P xs k"
proof (induction xs)
  case Nil
  then show ?case by simp
next
  case (Cons x xs)
  show ?case
  proof (cases "P x")
    case True
    then have "first_at P (x # xs) 0" by (simp add: first_at_def)
    then show ?thesis ..
  next
    case False
    with Cons obtain k where "first_at P xs k" by auto
    with False have "first_at P (x # xs) (Suc k)" by (simp add: first_at_def)
    then show ?thesis ..
  qed
qed

lemma first_at_unique:
  "first_at P xs k \<Longrightarrow> first_at P xs j \<Longrightarrow> j = k"
proof (rule ccontr)
  assume a: "first_at P xs k" and b: "first_at P xs j" and ne: "j \<noteq> k"
  then consider "j < k" | "k < j" by linarith
  then show False
  proof cases
    case 1
    with a b show False
      by (auto simp: first_at_def list_all_length)
  next
    case 2
    with a b show False
      by (auto simp: first_at_def list_all_length)
  qed
qed

lemma scan_physical_devices_none:
  "list_all (\<lambda>pd. \<not> suitable e pd) pds \<Longrightarrow> scan_physical_devices e pds st = st"
proof (induction pds)
  case Nil
  then show ?case by simp
next
  case (Cons pd pds)
  then have rest: "scan_physical_devices e pds st = st" by simp
  show ?case
  proof (cases "is_physical_device_supported e pd")
    case False
    with rest show ?thesis by simp
  next
    case True
    with Cons.prems have "\<not> list_ex graphics_capable (getQueueFamilyProperties e pd)"
      by (simp add: suitable_def)
    then have "scan_queue_families pd (getQueueFamilyProperties e pd) 0 st = st"
      by (rule scan_queue_families_none)
    with True rest show ?thesis by (simp add: Let_def)
  qed
qed

lemma scan_physical_devices_skip:
  assumes "\<not> suitable e pd" and "vk_physical_device st = VK_NULL_HANDLE"
  shows "scan_physical_devices e (pd # pds) st = scan_physical_devices e pds st"
proof (cases "is_physical_device_supported e pd")
  case False
  then show ?thesis by simp
next
  case True
  with assms have "\<not> list_ex graphics_capable (getQueueFamilyProperties e pd)"
    by (simp add: suitable_def)
  then have "scan_queue_families pd (getQueueFamilyProperties e pd) 0 st = st"
    by (rule scan_queue_families_none)
  with True assms show ?thesis by (simp add: Let_def)
qed

lemma scan_physical_devices_first:
  assumes "first_at (suitable e) pds k"
    and "VK_NULL_HANDLE \<notin> set pds"
    and "vk_physical_device st = VK_NULL_HANDLE"
    and "first_at graphics_capable (getQueueFamilyProperties e (pds ! k)) i"
  shows "scan_physical_devices e pds st =
           st\<lparr>vk_physical_device := pds ! k, vk_graphics_queue_family_index := i\<rparr>"
  using assms
proof (induction pds arbitrary: k)
  case Nil
  then show ?case by (simp add: first_at_def)
next
  case (Cons pd pds)
  show ?case
  proof (cases k)
    case 0
    with Cons.prems have sup: "is_physical_device_supported e pd"
      and fi: "first_at graphics_capable (getQueueFamilyProperties e pd) i"
      and nz: "pd \<noteq> VK_NULL_HANDLE"
      by (auto simp: first_at_def suitable_def)
    from scan_queue_families_first [OF fi, of pd 0 st] sup nz 0 show ?thesis
      by (simp add: Let_def)
  next
    case (Suc j)
    with Cons.prems have ns: "\<not> suitable e pd" and fj: "first_at (suitable e) pds j"
      and nn: "VK_NULL_HANDLE \<notin> set pds"
      and fi: "first_at graphics_capable (getQueueFamilyProperties e (pds ! j)) i"
      by (simp_all add: first_at_def)
    from Cons.IH [OF fj nn Cons.prems(3) fi]
      scan_physical_devices_skip [OF ns Cons.prems(3), of pds] Suc
    show ?thesis by simp
  qed
qed

section \<open>The member functions, statement by statement\<close>

lemma assign_new_eq: "assign_new member raw d = (mr_release member, Owning raw d)"
  by (simp add: assign_new_def mr_move_assign_def mr_destroy_def)

lemma create_instance_eq:
  "create_instance e st tr =
     (case createInstance e (instance_create_info_for (vulkan_extensions e)) of
        Inl err \<Rightarrow> (Some err, st, tr)
      | Inr i \<Rightarrow>
          (None, st\<lparr>vk_instance := Owning i InstanceDestroy\<rparr>,
           tr @ [CreateInstance (instance_create_info_for (vulkan_extensions e)) i]
              @ map (run_destructor st) (mr_release (vk_instance st))))"
  by (simp add: create_instance_def assign_new_eq Let_def split: sum.splits)

lemma create_device_eq:
  "create_device e st tr =
     (let info = device_create_info_for
                   (physical_device_queue_family_indices e (vk_physical_device st))
                   (vk_graphics_queue_family_index st)
      in case createDevice e (vk_physical_device st) info of
           Inl err \<Rightarrow> (Some err, st, tr)
         | Inr d \<Rightarrow>
             (None,
              st\<lparr>vk_device := Owning d DeviceDestroy,
                 vk_graphics_queue := getQueue e d (vk_graphics_queue_family_index st) 0\<rparr>,
              tr @ [CreateDevice (vk_physical_device st) info d]
                 @ map (run_destructor st) (mr_release (vk_device st))
                 @ [GetQueue d (vk_graphics_queue_family_index st) 0]))"
  by (simp add: create_device_def assign_new_eq Let_def physical_device_def
      graphics_queue_family_index_def device_def split: sum.splits)

lemma create_command_pool_eq:
  "create_command_pool e st tr =
     (let info = CommandPoolCreateInfo
                   \<lparr>cpci_queueFamilyIndex := vk_graphics_queue_family_index st,
                    cpci_flags := [eResetCommandBuffer]\<rparr>
      in case createCommandPool e (mr_raw (vk_device st)) info of
           Inl err \<Rightarrow> (Some err, st, tr)
         | Inr cp \<Rightarrow>
             (None, st\<lparr>vk_command_pool := Owning cp CommandPoolDestroy\<rparr>,
              tr @ [CreateCommandPool (mr_raw (vk_device st)) info cp]
                 @ map (run_destructor st) (mr_release (vk_command_pool st))))"
  by (simp add: create_command_pool_def assign_new_eq Let_def
      graphics_queue_family_index_def device_def split: sum.splits)

lemma choose_physical_device_none:
  assumes "enumeratePhysicalDevices e (instance_of st) = Inr pds"
    and "vk_physical_device st = VK_NULL_HANDLE"
    and "list_all (\<lambda>pd. \<not> suitable e pd) pds"
  shows "choose_physical_device e st tr = (Some NoSuitableDeviceError, st, tr)"
  using assms scan_physical_devices_none [OF assms(3), of st]
  by (simp add: choose_physical_device_def NoSuitableDeviceError_def)

lemma and_then_simps:
  "and_then (None, st, tr) f = f st tr"
  "and_then (Some err, st, tr) f = (Some err, st, tr)"
  by (simp_all add: and_then_def)

lemma initial_state_sel:
  "vk_instance (initial_state u) = Empty"
  "vk_device (initial_state u) = Empty"
  "vk_command_pool (initial_state u) = Empty"
  "vk_physical_device (initial_state u) = VK_NULL_HANDLE"
  "vk_graphics_queue (initial_state u) = VK_NULL_HANDLE"
  "vk_graphics_queue_family_index (initial_state u) = u"
  by (simp_all add: initial_state_def)

lemma destroy_members_eq:
  "destroy_members st =
     (map (run_destructor st) (mr_release (vk_command_pool st))
      @ map (run_destructor (st\<lparr>vk_command_pool := Empty\<rparr>)) (mr_release (vk_device st))
      @ map (run_destructor (st\<lparr>vk_command_pool := Empty, vk_device := Empty\<rparr>))
          (mr_release (vk_instance st)),
      st\<lparr>vk_command_pool := Empty, vk_device := Empty, vk_instance := Empty\<rparr>)"
  by (simp add: destroy_members_def mr_destroy_def Let_def)

section \<open>The concrete collaborators, evaluated\<close>

lemma example_env_sel:
  "vulkan_extensions example_env = [''VK_KHR_xcb_surface'']"
  "is_physical_device_supported example_env = (\<lambda>pd. pd = 12)"
  "physical_device_queue_family_indices example_env = (\<lambda>pd. [1])"
  "createInstance example_env = (\<lambda>info. Inr 21)"
  "enumeratePhysicalDevices example_env = (\<lambda>i. Inr [11, 12])"
  "getQueueFamilyProperties example_env =
     (\<lambda>pd. [\<lparr>queueFlags = 4, queueCount = 1\<rparr>,
            \<lparr>queueFlags = 1, queueCount = 0\<rparr>,
            \<lparr>queueFlags = 7, queueCount = 16\<rparr>])"
  "createDevice example_env = (\<lambda>pd info. Inr 22)"
  "getQueue example_env = (\<lambda>d family k. 23)"
  "createCommandPool example_env = (\<lambda>d info. Inr 24)"
  by (simp_all add: example_env_def)

lemma example_families:
  "first_at graphics_capable (getQueueFamilyProperties example_env pd) 2"
  by (simp add: example_env_sel first_at_def graphics_capable_def eGraphics_def)

lemma example_suitable:
  "suitable example_env pd = (pd = 12)"
  by (simp add: suitable_def example_env_sel graphics_capable_def eGraphics_def)

lemma example_devices:
  "first_at (suitable example_env) [11, 12] 1"
  by (simp add: first_at_def example_suitable)

lemma headless_suitable:
  "\<not> suitable headless_env pd"
  by (simp add: suitable_def headless_env_def)

section \<open>Physical device selection\<close>

text \<open>
  C1. Called as the constructor calls it (the member \<open>vk_physical_device\<close> still null), on
  an enumeration of physical devices (none of which is the null handle) that has a device
  the window system supports and that has a queue family with a nonzero queue count and
  the graphics bit: the function returns normally, the device it records is the first such
  device of the enumeration, and the family index it records is the lowest index of such
  a family on that device. Nothing else of the object changes.
\<close>

theorem choose_physical_device_first_suitable:
  assumes enum: "enumeratePhysicalDevices e (instance_of st) = Inr pds"
    and nonnull: "VK_NULL_HANDLE \<notin> set pds"
    and fresh: "vk_physical_device st = VK_NULL_HANDLE"
    and ex: "list_ex (suitable e) pds"
  shows "\<exists>k i. first_at (suitable e) pds k \<and>
               first_at graphics_capable (getQueueFamilyProperties e (pds ! k)) i \<and>
               choose_physical_device e st tr =
                 (None,
                  st\<lparr>vk_physical_device := pds ! k, vk_graphics_queue_family_index := i\<rparr>,
                  tr)"
proof -
  from ex obtain k where k: "first_at (suitable e) pds k"
    using first_at_exists by blast
  then have "suitable e (pds ! k)" and kl: "k < length pds"
    by (simp_all add: first_at_def)
  then obtain i where i: "first_at graphics_capable (getQueueFamilyProperties e (pds ! k)) i"
    using first_at_exists by (auto simp: suitable_def)
  from kl nonnull have nz: "pds ! k \<noteq> VK_NULL_HANDLE"
    by (metis nth_mem)
  have "scan_physical_devices e pds st =
          st\<lparr>vk_physical_device := pds ! k, vk_graphics_queue_family_index := i\<rparr>"
    using k nonnull fresh i by (rule scan_physical_devices_first)
  with enum nz have "choose_physical_device e st tr =
      (None, st\<lparr>vk_physical_device := pds ! k, vk_graphics_queue_family_index := i\<rparr>, tr)"
    by (simp add: choose_physical_device_def)
  with k i show ?thesis by blast
qed

text \<open>The scenario of the spec: device A unsupported, device B supported with its graphics
  family at index 2; B is chosen with family index 2.\<close>

theorem choose_physical_device_first_suitable_witness:
  "choose_physical_device example_env
     ((initial_state 0)\<lparr>vk_instance := Owning 21 InstanceDestroy\<rparr>) [] =
   (None,
    (initial_state 0)
      \<lparr>vk_instance := Owning 21 InstanceDestroy, vk_physical_device := 12,
       vk_graphics_queue_family_index := 2\<rparr>,
    [])"
proof -
  let ?st = "(initial_state 0)\<lparr>vk_instance := Owning 21 InstanceDestroy\<rparr>"
  have h1: "enumeratePhysicalDevices example_env (instance_of ?st) = Inr [11, 12]"
    by (simp add: example_env_sel)
  have h2: "VK_NULL_HANDLE \<notin> set [11, 12]"
    by (simp add: VK_NULL_HANDLE_def)
  have h3: "vk_physical_device ?st = VK_NULL_HANDLE"
    by (simp add: initial_state_sel)
  have h4: "list_ex (suitable example_env) [11, 12]"
    by (simp add: example_suitable)
  from choose_physical_device_first_suitable [OF h1 h2 h3 h4, of "[]"]
  obtain k i where k: "first_at (suitable example_env) [11, 12] k"
    and i: "first_at graphics_capable (getQueueFamilyProperties example_env ([11, 12] ! k)) i"
    and r: "choose_physical_device example_env ?st [] =
              (None, ?st\<lparr>vk_physical_device := [11, 12] ! k,
                         vk_graphics_queue_family_index := i\<rparr>, [])"
    by blast
  from example_devices k have k1: "k = 1" by (rule first_at_unique)
  from example_families i have i2: "i = 2" by (rule first_at_unique)
  from r k1 i2 show ?thesis by simp
qed

text \<open>
  C3. When the instance was created and none of the devices it enumerates is suitable,
  the constructor throws the runtime error "No suitable Vulkan physical devices found"
  and yields no object; the only driver calls of the whole construction are the creation
  of the instance and its destruction by the unwinding, so that no instance, device or
  command pool is left allocated.
\<close>

theorem no_suitable_device_fails:
  assumes inst: "createInstance e (instance_create_info_for (vulkan_extensions e)) = Inr i"
    and enum: "enumeratePhysicalDevices e i = Inr pds"
    and none: "list_all (\<lambda>pd. \<not> suitable e pd) pds"
  shows "VulkanState_ctor e u =
           (Inl NoSuitableDeviceError,
            [CreateInstance (instance_create_info_for (vulkan_extensions e)) i,
             DestroyInstance i]) \<and>
         lifetimes [] (snd (VulkanState_ctor e u)) = Some []"
proof -
  let ?st1 = "(initial_state u)\<lparr>vk_instance := Owning i InstanceDestroy\<rparr>"
  let ?tr1 = "[CreateInstance (instance_create_info_for (vulkan_extensions e)) i]"
  have s1: "create_instance e (initial_state u) [] = (None, ?st1, ?tr1)"
    using inst by (simp add: create_instance_eq initial_state_sel)
  have "enumeratePhysicalDevices e (instance_of ?st1) = Inr pds"
    using enum by (simp add: instance_of_def)
  moreover have "vk_physical_device ?st1 = VK_NULL_HANDLE"
    by (simp add: initial_state_sel)
  ultimately have s2:
    "choose_physical_device e ?st1 ?tr1 = (Some NoSuitableDeviceError, ?st1, ?tr1)"
    using none by (rule choose_physical_device_none)
  have "VulkanState_ctor e u =
           (Inl NoSuitableDeviceError,
            [CreateInstance (instance_create_info_for (vulkan_extensions e)) i,
             DestroyInstance i])"
    by (simp add: VulkanState_ctor_def and_then_simps s1 s2 destroy_members_eq
        initial_state_sel)
  then show ?thesis by simp
qed

text \<open>The scenario of the spec: no device supports presentation.\<close>

theorem no_suitable_device_fails_witness:
  "VulkanState_ctor headless_env 0 =
     (Inl (RuntimeError ''No suitable Vulkan physical devices found''),
      [CreateInstance (instance_create_info_for [''VK_KHR_xcb_surface'']) 21,
       DestroyInstance 21]) \<and>
   lifetimes [] (snd (VulkanState_ctor headless_env 0)) = Some []"
proof -
  have h1: "createInstance headless_env
              (instance_create_info_for (vulkan_extensions headless_env)) = Inr 21"
    by (simp add: headless_env_def example_env_sel)
  have h2: "enumeratePhysicalDevices headless_env 21 = Inr [11, 12]"
    by (simp add: headless_env_def example_env_sel)
  have h3: "list_all (\<lambda>pd. \<not> suitable headless_env pd) [11, 12]"
    by (simp add: headless_suitable)
  have ext: "vulkan_extensions headless_env = [''VK_KHR_xcb_surface'']"
    by (simp add: headless_env_def example_env_sel)
  from no_suitable_device_fails [OF h1 h2 h3, of 0] show ?thesis
    by (simp add: ext NoSuitableDeviceError_def)
qed

lemma example_env_properties:
  "getProperties example_env pd =
     \<lparr>vendorID = 0x8086, deviceID = 0x1912,
      deviceName = ''Intel HD 530'' @ [CHR 0x00, CHR ''x''],
      driverVersion = 71307264\<rparr>"
  by (simp add: example_env_def)

section \<open>Instance creation\<close>

text \<open>
  C7. For every extension list of the collaborator, the create info of the instance
  enables the collaborator's extensions, in their order and as often as they are listed,
  followed by \<open>VK_KHR_surface\<close>; the application name is \<open>vkmark\<close>; no layer is enabled and
  the API version, the engine and the flags are left at their defaults. This create info
  is the one \<open>create_instance\<close> passes to the driver.
\<close>

theorem create_instance_enables_extensions:
  "instance_create_info_for exts =
     \<lparr>ici_flags = 0,
      pApplicationInfo =
        Some \<lparr>pApplicationName = Some ''vkmark'', applicationVersion = 0,
              pEngineName = None, engineVersion = 0, apiVersion = 0\<rparr>,
      ppEnabledLayerNames = [],
      ppEnabledExtensionNames = exts @ [''VK_KHR_surface'']\<rparr> \<and>
   create_instance e st tr =
     (case createInstance e (instance_create_info_for (vulkan_extensions e)) of
        Inl err \<Rightarrow> (Some err, st, tr)
      | Inr i \<Rightarrow>
          (None, st\<lparr>vk_instance := Owning i InstanceDestroy\<rparr>,
           tr @ [CreateInstance (instance_create_info_for (vulkan_extensions e)) i]
              @ map (run_destructor st) (mr_release (vk_instance st))))"
  by (simp add: create_instance_eq instance_create_info_for_def InstanceCreateInfo_def
      ApplicationInfo_def VK_KHR_SURFACE_EXTENSION_NAME_def)

text \<open>A collaborator that lists \<open>VK_KHR_surface\<close> itself gets it twice.\<close>

theorem create_instance_enables_extensions_witness:
  "ppEnabledExtensionNames
     (instance_create_info_for [''VK_KHR_surface'', ''VK_KHR_xcb_surface'']) =
   [''VK_KHR_surface'', ''VK_KHR_xcb_surface'', ''VK_KHR_surface'']"
  using create_instance_enables_extensions
    [of "[''VK_KHR_surface'', ''VK_KHR_xcb_surface'']" example_env "initial_state 0" "[]"]
  by simp

section \<open>Logical device creation\<close>

lemma merge_graphics_family_eq:
  "merge_graphics_family wsi g = (if g \<in> set wsi then wsi else wsi @ [g])"
  by (auto simp: merge_graphics_family_def find_None_iff)

lemma push_queue_create_infos_eq:
  "push_queue_create_infos indices priority acc =
     acc @ map (\<lambda>index. \<lparr>qci_queueFamilyIndex = index, qci_queueCount = 1,
                          qci_pQueuePriorities = [priority]\<rparr>) indices"
  by (induction indices arbitrary: acc) (simp_all add: DeviceQueueCreateInfo_def)

lemma pQueueCreateInfos_eq:
  "pQueueCreateInfos (device_create_info_for wsi g) =
     map (\<lambda>index. \<lparr>qci_queueFamilyIndex = index, qci_queueCount = 1,
                    qci_pQueuePriorities = [1]\<rparr>) (merge_graphics_family wsi g)"
  by (simp add: device_create_info_for_def push_queue_create_infos_eq DeviceCreateInfo_def)

lemma queue_families_eq:
  "map qci_queueFamilyIndex (pQueueCreateInfos (device_create_info_for wsi g)) =
     merge_graphics_family wsi g"
  by (simp add: pQueueCreateInfos_eq comp_def)

lemma queues_requested_map:
  "queues_requested
     (map (\<lambda>index. \<lparr>qci_queueFamilyIndex = index, qci_queueCount = 1,
                    qci_pQueuePriorities = [p]\<rparr>) xs) family =
   count_list xs family"
  by (induction xs) (simp_all add: queues_requested_def)

lemma queues_requested_eq:
  "queues_requested (pQueueCreateInfos (device_create_info_for wsi g)) family =
     count_list (merge_graphics_family wsi g) family"
  unfolding pQueueCreateInfos_eq by (rule queues_requested_map)

lemma count_list_distinct:
  "distinct xs \<Longrightarrow> x \<in> set xs \<Longrightarrow> count_list xs x = 1"
  by (induction xs) (auto simp: count_list_0_iff)

lemma device_create_info_for_eq:
  "device_create_info_for wsi g =
     \<lparr>pQueueCreateInfos =
        map (\<lambda>index. \<lparr>qci_queueFamilyIndex = index, qci_queueCount = 1,
                       qci_pQueuePriorities = [1]\<rparr>)
          (if g \<in> set wsi then wsi else wsi @ [g]),
      dci_ppEnabledExtensionNames = [''VK_KHR_swapchain''],
      pEnabledFeatures = Some \<lparr>samplerAnisotropy = True\<rparr>\<rparr>"
  by (simp add: device_create_info_for_def push_queue_create_infos_eq DeviceCreateInfo_def
      PhysicalDeviceFeatures_def VK_KHR_SWAPCHAIN_EXTENSION_NAME_def merge_graphics_family_eq)

text \<open>What \<open>create_device\<close> does with the create info: it is the argument of the one call of
  \<open>createDevice\<close>, on the chosen physical device; when that call throws, nothing else
  happens, and otherwise the device is stored and the queue fetched from it.\<close>

lemma create_device_call:
  "create_device e st tr =
     (case createDevice e (physical_device st)
             (device_create_info_for
                (physical_device_queue_family_indices e (physical_device st))
                (graphics_queue_family_index st)) of
        Inl err \<Rightarrow> (Some err, st, tr)
      | Inr d \<Rightarrow>
          (None,
           st\<lparr>vk_device := Owning d DeviceDestroy,
              vk_graphics_queue := getQueue e d (graphics_queue_family_index st) 0\<rparr>,
           tr @ [CreateDevice (physical_device st)
                   (device_create_info_for
                      (physical_device_queue_family_indices e (physical_device st))
                      (graphics_queue_family_index st)) d]
              @ map (run_destructor st) (mr_release (vk_device st))
              @ [GetQueue d (graphics_queue_family_index st) 0]))"
  by (simp add: create_device_eq Let_def physical_device_def graphics_queue_family_index_def
      split: sum.splits)

lemma duplicate_env_sel:
  "physical_device_queue_family_indices duplicate_env = (\<lambda>pd. [1, 1])"
  "createDevice duplicate_env = (\<lambda>pd info. Inr 22)"
  "getQueue duplicate_env = (\<lambda>d family k. 23)"
  by (simp_all add: duplicate_env_def example_env_def)

text \<open>
  C2, as the claim states it, fails: the code looks for the graphics family only, so a
  family that the collaborator lists twice is passed to device creation twice. With the
  collaborator's list 1, 1 and the graphics family 2, \<open>create_device\<close> calls the driver
  with create infos for the families 1, 1 and 2.
\<close>

theorem queue_families_duplicates_counterexample:
  "create_device duplicate_env
     ((initial_state 0)
        \<lparr>vk_instance := Owning 21 InstanceDestroy, vk_physical_device := 12,
         vk_graphics_queue_family_index := 2\<rparr>) [] =
     (None,
      (initial_state 0)
        \<lparr>vk_instance := Owning 21 InstanceDestroy, vk_physical_device := 12,
         vk_graphics_queue_family_index := 2, vk_device := Owning 22 DeviceDestroy,
         vk_graphics_queue := 23\<rparr>,
      [CreateDevice 12
         \<lparr>pQueueCreateInfos =
            [\<lparr>qci_queueFamilyIndex = 1, qci_queueCount = 1, qci_pQueuePriorities = [1]\<rparr>,
             \<lparr>qci_queueFamilyIndex = 1, qci_queueCount = 1, qci_pQueuePriorities = [1]\<rparr>,
             \<lparr>qci_queueFamilyIndex = 2, qci_queueCount = 1, qci_pQueuePriorities = [1]\<rparr>],
          dci_ppEnabledExtensionNames = [''VK_KHR_swapchain''],
          pEnabledFeatures = Some \<lparr>samplerAnisotropy = True\<rparr>\<rparr> 22,
       GetQueue 22 2 0]) \<and>
   \<not> distinct
       (map qci_queueFamilyIndex
          [\<lparr>qci_queueFamilyIndex = 1, qci_queueCount = 1, qci_pQueuePriorities = [1]\<rparr>,
           \<lparr>qci_queueFamilyIndex = 1, qci_queueCount = 1, qci_pQueuePriorities = [1]\<rparr>,
           \<lparr>qci_queueFamilyIndex = 2, qci_queueCount = 1, qci_pQueuePriorities = [1]\<rparr>])"
  by (simp add: create_device_call duplicate_env_sel device_create_info_for_eq
      physical_device_def graphics_queue_family_index_def initial_state_sel)

text \<open>
  C2, amended. For every collaborator, every chosen physical device and graphics family:
  \<open>create_device\<close> passes one create info to the one call of \<open>createDevice\<close>, and when the
  collaborator's family list for the chosen device has no duplicates, the family indices
  of the queue create infos in it have no duplicates.
\<close>

theorem queue_families_distinct:
  "(let wsi = physical_device_queue_family_indices e (physical_device st);
        g = graphics_queue_family_index st;
        info = device_create_info_for wsi g
    in create_device e st tr =
         (case createDevice e (physical_device st) info of
            Inl err \<Rightarrow> (Some err, st, tr)
          | Inr d \<Rightarrow>
              (None,
               st\<lparr>vk_device := Owning d DeviceDestroy,
                  vk_graphics_queue := getQueue e d g 0\<rparr>,
               tr @ [CreateDevice (physical_device st) info d]
                  @ map (run_destructor st) (mr_release (vk_device st))
                  @ [GetQueue d g 0])) \<and>
       (distinct wsi \<longrightarrow>
          distinct (map qci_queueFamilyIndex (pQueueCreateInfos info))))"
  unfolding Let_def
proof (intro conjI impI)
  show "create_device e st tr =
     (case createDevice e (physical_device st)
             (device_create_info_for
                (physical_device_queue_family_indices e (physical_device st))
                (graphics_queue_family_index st)) of
        Inl err \<Rightarrow> (Some err, st, tr)
      | Inr d \<Rightarrow>
          (None,
           st\<lparr>vk_device := Owning d DeviceDestroy,
              vk_graphics_queue := getQueue e d (graphics_queue_family_index st) 0\<rparr>,
           tr @ [CreateDevice (physical_device st)
                   (device_create_info_for
                      (physical_device_queue_family_indices e (physical_device st))
                      (graphics_queue_family_index st)) d]
              @ map (run_destructor st) (mr_release (vk_device st))
              @ [GetQueue d (graphics_queue_family_index st) 0]))"
    by (rule create_device_call)
  assume "distinct (physical_device_queue_family_indices e (physical_device st))"
  then show "distinct (map qci_queueFamilyIndex (pQueueCreateInfos
      (device_create_info_for
         (physical_device_queue_family_indices e (physical_device st))
         (graphics_queue_family_index st))))"
    by (simp add: queue_families_eq merge_graphics_family_eq)
qed

text \<open>The first scenario of the spec: presentation on family 1 and graphics on family 2;
  the driver is called with create infos for the two families 1 and 2.\<close>

theorem queue_families_distinct_witness:
  "distinct (physical_device_queue_family_indices example_env 12) \<and>
   create_device example_env
     ((initial_state 0)
        \<lparr>vk_instance := Owning 21 InstanceDestroy, vk_physical_device := 12,
         vk_graphics_queue_family_index := 2\<rparr>) [] =
     (None,
      (initial_state 0)
        \<lparr>vk_instance := Owning 21 InstanceDestroy, vk_physical_device := 12,
         vk_graphics_queue_family_index := 2, vk_device := Owning 22 DeviceDestroy,
         vk_graphics_queue := 23\<rparr>,
      [CreateDevice 12
         \<lparr>pQueueCreateInfos =
            [\<lparr>qci_queueFamilyIndex = 1, qci_queueCount = 1, qci_pQueuePriorities = [1]\<rparr>,
             \<lparr>qci_queueFamilyIndex = 2, qci_queueCount = 1, qci_pQueuePriorities = [1]\<rparr>],
          dci_ppEnabledExtensionNames = [''VK_KHR_swapchain''],
          pEnabledFeatures = Some \<lparr>samplerAnisotropy = True\<rparr>\<rparr> 22,
       GetQueue 22 2 0]) \<and>
   distinct (map qci_queueFamilyIndex (pQueueCreateInfos (device_create_info_for [1] 2)))"
  using queue_families_distinct
    [of example_env
        "(initial_state 0)
           \<lparr>vk_instance := Owning 21 InstanceDestroy, vk_physical_device := 12,
            vk_graphics_queue_family_index := 2\<rparr>" "[]"]
  by (simp add: Let_def example_env_sel device_create_info_for_eq physical_device_def
      graphics_queue_family_index_def initial_state_sel)

text \<open>
  C5. For every collaborator, every chosen physical device and graphics family, the empty
  family list and the lists without the graphics family among them: \<open>create_device\<close>
  passes one create info to the one call of \<open>createDevice\<close>, and the graphics family is
  among the family indices of the queue create infos in it; when the collaborator's list
  is empty it is the only one.
\<close>

theorem graphics_family_present:
  "(let wsi = physical_device_queue_family_indices e (physical_device st);
        g = graphics_queue_family_index st;
        info = device_create_info_for wsi g
    in create_device e st tr =
         (case createDevice e (physical_device st) info of
            Inl err \<Rightarrow> (Some err, st, tr)
          | Inr d \<Rightarrow>
              (None,
               st\<lparr>vk_device := Owning d DeviceDestroy,
                  vk_graphics_queue := getQueue e d g 0\<rparr>,
               tr @ [CreateDevice (physical_device st) info d]
                  @ map (run_destructor st) (mr_release (vk_device st))
                  @ [GetQueue d g 0])) \<and>
       g \<in> set (map qci_queueFamilyIndex (pQueueCreateInfos info)) \<and>
       (wsi = [] \<longrightarrow> map qci_queueFamilyIndex (pQueueCreateInfos info) = [g]))"
  unfolding Let_def
proof (intro conjI impI)
  show "create_device e st tr =
     (case createDevice e (physical_device st)
             (device_create_info_for
                (physical_device_queue_family_indices e (physical_device st))
                (graphics_queue_family_index st)) of
        Inl err \<Rightarrow> (Some err, st, tr)
      | Inr d \<Rightarrow>
          (None,
           st\<lparr>vk_device := Owning d DeviceDestroy,
              vk_graphics_queue := getQueue e d (graphics_queue_family_index st) 0\<rparr>,
           tr @ [CreateDevice (physical_device st)
                   (device_create_info_for
                      (physical_device_queue_family_indices e (physical_device st))
                      (graphics_queue_family_index st)) d]
              @ map (run_destructor st) (mr_release (vk_device st))
              @ [GetQueue d (graphics_queue_family_index st) 0]))"
    by (rule create_device_call)
  show "graphics_queue_family_index st
        \<in> set (map qci_queueFamilyIndex (pQueueCreateInfos
            (device_create_info_for
               (physical_device_queue_family_indices e (physical_device st))
               (graphics_queue_family_index st))))"
    by (simp add: queue_families_eq merge_graphics_family_eq)
  assume "physical_device_queue_family_indices e (physical_device st) = []"
  then show "map qci_queueFamilyIndex (pQueueCreateInfos
        (device_create_info_for
           (physical_device_queue_family_indices e (physical_device st))
           (graphics_queue_family_index st))) =
      [graphics_queue_family_index st]"
    by (simp add: queue_families_eq merge_graphics_family_eq)
qed

text \<open>A collaborator without presentation families: the driver is called with one create
  info, for the graphics family 2.\<close>

theorem graphics_family_present_witness:
  "physical_device_queue_family_indices offscreen_env 12 = [] \<and>
   create_device offscreen_env
     ((initial_state 0)
        \<lparr>vk_instance := Owning 21 InstanceDestroy, vk_physical_device := 12,
         vk_graphics_queue_family_index := 2\<rparr>) [] =
     (None,
      (initial_state 0)
        \<lparr>vk_instance := Owning 21 InstanceDestroy, vk_physical_device := 12,
         vk_graphics_queue_family_index := 2, vk_device := Owning 22 DeviceDestroy,
         vk_graphics_queue := 23\<rparr>,
      [CreateDevice 12
         \<lparr>pQueueCreateInfos =
            [\<lparr>qci_queueFamilyIndex = 2, qci_queueCount = 1, qci_pQueuePriorities = [1]\<rparr>],
          dci_ppEnabledExtensionNames = [''VK_KHR_swapchain''],
          pEnabledFeatures = Some \<lparr>samplerAnisotropy = True\<rparr>\<rparr> 22,
       GetQueue 22 2 0]) \<and>
   (2::nat) \<in> set (map qci_queueFamilyIndex (pQueueCreateInfos (device_create_info_for [] 2)))"
  using graphics_family_present
    [of offscreen_env
        "(initial_state 0)
           \<lparr>vk_instance := Owning 21 InstanceDestroy, vk_physical_device := 12,
            vk_graphics_queue_family_index := 2\<rparr>" "[]"]
  by (simp add: Let_def offscreen_env_def example_env_def device_create_info_for_eq
      physical_device_def graphics_queue_family_index_def initial_state_sel)

text \<open>
  C10. For every collaborator, every chosen physical device and graphics family:
  \<open>create_device\<close> passes one create info to the one call of \<open>createDevice\<close>, and the queue
  create infos in it name the collaborator's families in the collaborator's order,
  element for element, followed by the graphics family exactly when the collaborator's
  list does not have it; when the collaborator's list is not empty, its first family is
  the family of the first queue create info.
\<close>

theorem queue_create_infos_keep_order:
  "(let wsi = physical_device_queue_family_indices e (physical_device st);
        g = graphics_queue_family_index st;
        info = device_create_info_for wsi g
    in create_device e st tr =
         (case createDevice e (physical_device st) info of
            Inl err \<Rightarrow> (Some err, st, tr)
          | Inr d \<Rightarrow>
              (None,
               st\<lparr>vk_device := Owning d DeviceDestroy,
                  vk_graphics_queue := getQueue e d g 0\<rparr>,
               tr @ [CreateDevice (physical_device st) info d]
                  @ map (run_destructor st) (mr_release (vk_device st))
                  @ [GetQueue d g 0])) \<and>
       map qci_queueFamilyIndex (pQueueCreateInfos info) =
         (if g \<in> set wsi then wsi else wsi @ [g]) \<and>
       (wsi \<noteq> [] \<longrightarrow> qci_queueFamilyIndex (hd (pQueueCreateInfos info)) = hd wsi))"
  unfolding Let_def
proof (intro conjI impI)
  let ?wsi = "physical_device_queue_family_indices e (physical_device st)"
  let ?g = "graphics_queue_family_index st"
  show "create_device e st tr =
     (case createDevice e (physical_device st) (device_create_info_for ?wsi ?g) of
        Inl err \<Rightarrow> (Some err, st, tr)
      | Inr d \<Rightarrow>
          (None,
           st\<lparr>vk_device := Owning d DeviceDestroy, vk_graphics_queue := getQueue e d ?g 0\<rparr>,
           tr @ [CreateDevice (physical_device st) (device_create_info_for ?wsi ?g) d]
              @ map (run_destructor st) (mr_release (vk_device st))
              @ [GetQueue d ?g 0]))"
    by (rule create_device_call)
  show "map qci_queueFamilyIndex (pQueueCreateInfos (device_create_info_for ?wsi ?g)) =
      (if ?g \<in> set ?wsi then ?wsi else ?wsi @ [?g])"
    by (simp add: queue_families_eq merge_graphics_family_eq)
  assume ne: "?wsi \<noteq> []"
  then have m: "merge_graphics_family ?wsi ?g \<noteq> []"
    and hd: "hd (merge_graphics_family ?wsi ?g) = hd ?wsi"
    by (simp_all add: merge_graphics_family_eq)
  from m have "qci_queueFamilyIndex (hd (pQueueCreateInfos (device_create_info_for ?wsi ?g))) =
      hd (merge_graphics_family ?wsi ?g)"
    unfolding pQueueCreateInfos_eq by (simp add: hd_map)
  with hd show "qci_queueFamilyIndex (hd (pQueueCreateInfos (device_create_info_for ?wsi ?g))) =
      hd ?wsi"
    by simp
qed

text \<open>A collaborator that presents on the families 3 and 1, in this order: with the
  graphics family 2 the driver gets the families 3, 1, 2, and with the graphics family 1
  it gets 3, 1.\<close>

theorem queue_create_infos_keep_order_witness:
  "create_device two_family_env
     ((initial_state 0)
        \<lparr>vk_instance := Owning 21 InstanceDestroy, vk_physical_device := 12,
         vk_graphics_queue_family_index := 2\<rparr>) [] =
     (None,
      (initial_state 0)
        \<lparr>vk_instance := Owning 21 InstanceDestroy, vk_physical_device := 12,
         vk_graphics_queue_family_index := 2, vk_device := Owning 22 DeviceDestroy,
         vk_graphics_queue := 23\<rparr>,
      [CreateDevice 12
         \<lparr>pQueueCreateInfos =
            [\<lparr>qci_queueFamilyIndex = 3, qci_queueCount = 1, qci_pQueuePriorities = [1]\<rparr>,
             \<lparr>qci_queueFamilyIndex = 1, qci_queueCount = 1, qci_pQueuePriorities = [1]\<rparr>,
             \<lparr>qci_queueFamilyIndex = 2, qci_queueCount = 1, qci_pQueuePriorities = [1]\<rparr>],
          dci_ppEnabledExtensionNames = [''VK_KHR_swapchain''],
          pEnabledFeatures = Some \<lparr>samplerAnisotropy = True\<rparr>\<rparr> 22,
       GetQueue 22 2 0]) \<and>
   create_device two_family_env
     ((initial_state 0)
        \<lparr>vk_instance := Owning 21 InstanceDestroy, vk_physical_device := 12,
         vk_graphics_queue_family_index := 1\<rparr>) [] =
     (None,
      (initial_state 0)
        \<lparr>vk_instance := Owning 21 InstanceDestroy, vk_physical_device := 12,
         vk_graphics_queue_family_index := 1, vk_device := Owning 22 DeviceDestroy,
         vk_graphics_queue := 23\<rparr>,
      [CreateDevice 12
         \<lparr>pQueueCreateInfos =
            [\<lparr>qci_queueFamilyIndex = 3, qci_queueCount = 1, qci_pQueuePriorities = [1]\<rparr>,
             \<lparr>qci_queueFamilyIndex = 1, qci_queueCount = 1, qci_pQueuePriorities = [1]\<rparr>],
          dci_ppEnabledExtensionNames = [''VK_KHR_swapchain''],
          pEnabledFeatures = Some \<lparr>samplerAnisotropy = True\<rparr>\<rparr> 22,
       GetQueue 22 1 0]) \<and>
   qci_queueFamilyIndex (hd (pQueueCreateInfos (device_create_info_for [3, 1] 2))) = 3"
  using queue_create_infos_keep_order
    [of two_family_env
        "(initial_state 0)
           \<lparr>vk_instance := Owning 21 InstanceDestroy, vk_physical_device := 12,
            vk_graphics_queue_family_index := 2\<rparr>" "[]"]
    queue_create_infos_keep_order
    [of two_family_env
        "(initial_state 0)
           \<lparr>vk_instance := Owning 21 InstanceDestroy, vk_physical_device := 12,
            vk_graphics_queue_family_index := 1\<rparr>" "[]"]
  by (simp add: Let_def two_family_env_def example_env_def device_create_info_for_eq
      physical_device_def graphics_queue_family_index_def initial_state_sel)

text \<open>
  C8, as the claim states it, fails: a family that the collaborator lists twice gets two
  create infos of one queue each, so two queues are requested in it. With the
  collaborator's list 1, 1 and the graphics family 1, \<open>create_device\<close> calls the driver
  with two create infos for family 1.
\<close>

theorem one_queue_per_family_counterexample:
  "create_device duplicate_env
     ((initial_state 0)
        \<lparr>vk_instance := Owning 21 InstanceDestroy, vk_physical_device := 12,
         vk_graphics_queue_family_index := 1\<rparr>) [] =
     (None,
      (initial_state 0)
        \<lparr>vk_instance := Owning 21 InstanceDestroy, vk_physical_device := 12,
         vk_graphics_queue_family_index := 1, vk_device := Owning 22 DeviceDestroy,
         vk_graphics_queue := 23\<rparr>,
      [CreateDevice 12
         \<lparr>pQueueCreateInfos =
            [\<lparr>qci_queueFamilyIndex = 1, qci_queueCount = 1, qci_pQueuePriorities = [1]\<rparr>,
             \<lparr>qci_queueFamilyIndex = 1, qci_queueCount = 1, qci_pQueuePriorities = [1]\<rparr>],
          dci_ppEnabledExtensionNames = [''VK_KHR_swapchain''],
          pEnabledFeatures = Some \<lparr>samplerAnisotropy = True\<rparr>\<rparr> 22,
       GetQueue 22 1 0]) \<and>
   queues_requested
     [\<lparr>qci_queueFamilyIndex = 1, qci_queueCount = 1, qci_pQueuePriorities = [1]\<rparr>,
      \<lparr>qci_queueFamilyIndex = 1, qci_queueCount = 1, qci_pQueuePriorities = [1]\<rparr>] 1 = 2"
  by (simp add: create_device_call duplicate_env_sel device_create_info_for_eq
      physical_device_def graphics_queue_family_index_def initial_state_sel
      queues_requested_def)

text \<open>
  C8, amended. For every collaborator, every chosen physical device and graphics family,
  duplicates in the collaborator's list or not: \<open>create_device\<close> passes one create info to
  the one call of \<open>createDevice\<close>; it holds one queue create info for each element of the
  final family list (the collaborator's list, followed by the graphics family when the
  list does not have it), each requesting one queue with priority 1.0, so that the queues
  requested in a family are as many as the family occurs in the final list; when device
  creation succeeds, the graphics queue is then fetched from the created device at the
  graphics family index and queue index 0, and stored. When the collaborator's list has
  no duplicates, exactly one queue is requested in each family of the final list.
\<close>

theorem create_device_one_queue_per_family:
  "(let wsi = physical_device_queue_family_indices e (physical_device st);
        g = graphics_queue_family_index st;
        info = device_create_info_for wsi g
    in create_device e st tr =
         (case createDevice e (physical_device st) info of
            Inl err \<Rightarrow> (Some err, st, tr)
          | Inr d \<Rightarrow>
              (None,
               st\<lparr>vk_device := Owning d DeviceDestroy,
                  vk_graphics_queue := getQueue e d g 0\<rparr>,
               tr @ [CreateDevice (physical_device st) info d]
                  @ map (run_destructor st) (mr_release (vk_device st))
                  @ [GetQueue d g 0])) \<and>
       pQueueCreateInfos info =
         map (\<lambda>family. \<lparr>qci_queueFamilyIndex = family, qci_queueCount = 1,
                        qci_pQueuePriorities = [1.0]\<rparr>)
           (if g \<in> set wsi then wsi else wsi @ [g]) \<and>
       queues_requested (pQueueCreateInfos info) family =
         count_list (if g \<in> set wsi then wsi else wsi @ [g]) family \<and>
       (distinct wsi \<longrightarrow>
          list_all (\<lambda>family. queues_requested (pQueueCreateInfos info) family = 1)
            (if g \<in> set wsi then wsi else wsi @ [g])))"
  unfolding Let_def
proof (intro conjI impI)
  let ?wsi = "physical_device_queue_family_indices e (physical_device st)"
  let ?g = "graphics_queue_family_index st"
  show "create_device e st tr =
     (case createDevice e (physical_device st) (device_create_info_for ?wsi ?g) of
        Inl err \<Rightarrow> (Some err, st, tr)
      | Inr d \<Rightarrow>
          (None,
           st\<lparr>vk_device := Owning d DeviceDestroy, vk_graphics_queue := getQueue e d ?g 0\<rparr>,
           tr @ [CreateDevice (physical_device st) (device_create_info_for ?wsi ?g) d]
              @ map (run_destructor st) (mr_release (vk_device st))
              @ [GetQueue d ?g 0]))"
    by (rule create_device_call)
  show "pQueueCreateInfos (device_create_info_for ?wsi ?g) =
         map (\<lambda>family. \<lparr>qci_queueFamilyIndex = family, qci_queueCount = 1,
                        qci_pQueuePriorities = [1.0]\<rparr>)
           (if ?g \<in> set ?wsi then ?wsi else ?wsi @ [?g])"
    by (simp add: pQueueCreateInfos_eq merge_graphics_family_eq)
  show count: "queues_requested (pQueueCreateInfos (device_create_info_for ?wsi ?g)) family =
         count_list (if ?g \<in> set ?wsi then ?wsi else ?wsi @ [?g]) family" for family
    using queues_requested_eq [of ?wsi ?g family] by (simp add: merge_graphics_family_eq)
  assume "distinct ?wsi"
  then have "distinct (if ?g \<in> set ?wsi then ?wsi else ?wsi @ [?g])"
    by simp
  then show "list_all
      (\<lambda>family. queues_requested (pQueueCreateInfos (device_create_info_for ?wsi ?g)) family = 1)
      (if ?g \<in> set ?wsi then ?wsi else ?wsi @ [?g])"
    unfolding list_all_iff count by (simp add: count_list_distinct)
qed

text \<open>The first scenario of the spec: presentation on family 1, graphics on family 2 of
  device 12; one queue in each of the two families, and the queue fetched at (2, 0).\<close>

theorem create_device_one_queue_per_family_witness:
  "distinct (physical_device_queue_family_indices example_env 12) \<and>
   create_device example_env
     ((initial_state 0)
        \<lparr>vk_instance := Owning 21 InstanceDestroy, vk_physical_device := 12,
         vk_graphics_queue_family_index := 2\<rparr>) [] =
     (None,
      (initial_state 0)
        \<lparr>vk_instance := Owning 21 InstanceDestroy, vk_physical_device := 12,
         vk_graphics_queue_family_index := 2, vk_device := Owning 22 DeviceDestroy,
         vk_graphics_queue := 23\<rparr>,
      [CreateDevice 12 (device_create_info_for [1] 2) 22, GetQueue 22 2 0]) \<and>
   pQueueCreateInfos (device_create_info_for [1] 2) =
     [\<lparr>qci_queueFamilyIndex = 1, qci_queueCount = 1, qci_pQueuePriorities = [1]\<rparr>,
      \<lparr>qci_queueFamilyIndex = 2, qci_queueCount = 1, qci_pQueuePriorities = [1]\<rparr>] \<and>
   queues_requested (pQueueCreateInfos (device_create_info_for [1] 2)) 1 = 1 \<and>
   queues_requested (pQueueCreateInfos (device_create_info_for [1] 2)) 2 = 1"
proof -
  let ?st = "(initial_state 0)
        \<lparr>vk_instance := Owning 21 InstanceDestroy, vk_physical_device := 12,
         vk_graphics_queue_family_index := 2\<rparr>"
  have sel: "physical_device_queue_family_indices example_env (physical_device ?st) = [1]"
    "graphics_queue_family_index ?st = 2" "physical_device ?st = 12"
    "createDevice example_env 12 (device_create_info_for [1] 2) = Inr 22"
    "getQueue example_env 22 2 0 = 23" "vk_device ?st = Empty"
    by (simp_all add: example_env_sel physical_device_def graphics_queue_family_index_def
        initial_state_sel)
  from create_device_one_queue_per_family [of example_env ?st "[]" 1]
    create_device_one_queue_per_family [of example_env ?st "[]" 2]
  show ?thesis
    unfolding Let_def sel by (simp add: example_env_sel)
qed

section \<open>Construction and teardown\<close>

lemma scan_queue_families_frame:
  "vk_instance (scan_queue_families pd qfs n s) = vk_instance s \<and>
   vk_device (scan_queue_families pd qfs n s) = vk_device s \<and>
   vk_command_pool (scan_queue_families pd qfs n s) = vk_command_pool s \<and>
   vk_graphics_queue (scan_queue_families pd qfs n s) = vk_graphics_queue s"
  by (induction qfs arbitrary: n) simp_all

lemma scan_physical_devices_frame:
  "vk_instance (scan_physical_devices e pds s) = vk_instance s \<and>
   vk_device (scan_physical_devices e pds s) = vk_device s \<and>
   vk_command_pool (scan_physical_devices e pds s) = vk_command_pool s \<and>
   vk_graphics_queue (scan_physical_devices e pds s) = vk_graphics_queue s"
  by (induction pds arbitrary: s) (simp_all add: scan_queue_families_frame Let_def)

lemma choose_physical_device_frame:
  assumes "choose_physical_device e st tr = (r, st', tr')"
  shows "tr' = tr \<and> vk_instance st' = vk_instance st \<and> vk_device st' = vk_device st \<and>
         vk_command_pool st' = vk_command_pool st \<and>
         vk_graphics_queue st' = vk_graphics_queue st"
  using assms
  by (auto simp: choose_physical_device_def Let_def scan_physical_devices_frame
      split: sum.splits if_splits)

lemma and_then_None:
  "and_then r f = (None, st, tr) \<Longrightarrow>
   \<exists>st0 tr0. r = (None, st0, tr0) \<and> f st0 tr0 = (None, st, tr)"
  by (cases r) (auto simp: and_then_def split: option.splits)

text \<open>What a constructor that returns has done: the three wrappers own what the three
  creating calls returned, and these calls and the fetch of the queue are the only ones
  made.\<close>

lemma VulkanState_ctor_success:
  assumes ok: "VulkanState_ctor e u = (Inr st, tr)"
  shows "\<exists>i d cp.
           vk_instance st = Owning i InstanceDestroy \<and>
           vk_device st = Owning d DeviceDestroy \<and>
           vk_command_pool st = Owning cp CommandPoolDestroy \<and>
           vk_graphics_queue st = getQueue e d (vk_graphics_queue_family_index st) 0 \<and>
           tr = [CreateInstance (instance_create_info_for (vulkan_extensions e)) i,
                 CreateDevice (vk_physical_device st)
                   (device_create_info_for
                      (physical_device_queue_family_indices e (vk_physical_device st))
                      (vk_graphics_queue_family_index st)) d,
                 GetQueue d (vk_graphics_queue_family_index st) 0,
                 CreateCommandPool d
                   \<lparr>cpci_queueFamilyIndex = vk_graphics_queue_family_index st,
                    cpci_flags = [eResetCommandBuffer]\<rparr> cp]"
proof -
  from ok have "and_then (and_then (and_then
             (create_instance e (initial_state u) [])
             (choose_physical_device e))
             (create_device e))
             (create_command_pool e) = (None, st, tr)"
    by (auto simp: VulkanState_ctor_def split: prod.splits option.splits)
  then obtain st3 tr3 where r3: "and_then (and_then
             (create_instance e (initial_state u) [])
             (choose_physical_device e))
             (create_device e) = (None, st3, tr3)"
    and s4: "create_command_pool e st3 tr3 = (None, st, tr)"
    by (blast dest: and_then_None)
  then obtain st2 tr2 where r2: "and_then
             (create_instance e (initial_state u) [])
             (choose_physical_device e) = (None, st2, tr2)"
    and s3: "create_device e st2 tr2 = (None, st3, tr3)"
    by (blast dest: and_then_None)
  then obtain st1 tr1 where s1: "create_instance e (initial_state u) [] = (None, st1, tr1)"
    and s2: "choose_physical_device e st1 tr1 = (None, st2, tr2)"
    by (blast dest: and_then_None)
  from s1 obtain i
    where st1: "st1 = (initial_state u)\<lparr>vk_instance := Owning i InstanceDestroy\<rparr>"
    and tr1: "tr1 = [CreateInstance (instance_create_info_for (vulkan_extensions e)) i]"
    by (auto simp: create_instance_eq initial_state_sel split: sum.splits)
  from choose_physical_device_frame [OF s2] st1 tr1
  have st2: "vk_instance st2 = Owning i InstanceDestroy" "vk_device st2 = Empty"
    "vk_command_pool st2 = Empty" and tr2: "tr2 = tr1"
    by (simp_all add: initial_state_sel)
  from s3 st2 obtain d where
    st3: "st3 = st2\<lparr>vk_device := Owning d DeviceDestroy,
                    vk_graphics_queue := getQueue e d (vk_graphics_queue_family_index st2) 0\<rparr>"
    and tr3: "tr3 = tr2 @ [CreateDevice (vk_physical_device st2)
                   (device_create_info_for
                      (physical_device_queue_family_indices e (vk_physical_device st2))
                      (vk_graphics_queue_family_index st2)) d,
                 GetQueue d (vk_graphics_queue_family_index st2) 0]"
    by (auto simp: create_device_eq Let_def split: sum.splits)
  from s4 st3 st2 obtain cp where
    st: "st = st3\<lparr>vk_command_pool := Owning cp CommandPoolDestroy\<rparr>"
    and tr: "tr = tr3 @ [CreateCommandPool d
                   \<lparr>cpci_queueFamilyIndex = vk_graphics_queue_family_index st3,
                    cpci_flags = [eResetCommandBuffer]\<rparr> cp]"
    by (auto simp: create_command_pool_eq Let_def CommandPoolCreateInfo_def split: sum.splits)
  show ?thesis
    using st tr st3 tr3 st2 tr2 tr1 by simp
qed

lemma example_scan:
  assumes "vk_physical_device st = VK_NULL_HANDLE"
  shows "scan_physical_devices example_env [11, 12] st =
           st\<lparr>vk_physical_device := 12, vk_graphics_queue_family_index := 2\<rparr>"
proof -
  have "VK_NULL_HANDLE \<notin> set [11, 12]"
    by (simp add: VK_NULL_HANDLE_def)
  from scan_physical_devices_first [OF example_devices this assms example_families]
  show ?thesis by simp
qed

lemma example_ctor:
  "VulkanState_ctor example_env 0 =
     (Inr \<lparr>vk_instance = Owning 21 InstanceDestroy, vk_device = Owning 22 DeviceDestroy,
           vk_command_pool = Owning 24 CommandPoolDestroy, vk_physical_device = 12,
           vk_graphics_queue = 23, vk_graphics_queue_family_index = 2\<rparr>,
      [CreateInstance (instance_create_info_for [''VK_KHR_xcb_surface'']) 21,
       CreateDevice 12 (device_create_info_for [1] 2) 22,
       GetQueue 22 2 0,
       CreateCommandPool 22
         \<lparr>cpci_queueFamilyIndex = 2, cpci_flags = [eResetCommandBuffer]\<rparr> 24])"
proof -
  let ?st1 = "(initial_state 0)\<lparr>vk_instance := Owning 21 InstanceDestroy\<rparr>"
  let ?tr1 = "[CreateInstance (instance_create_info_for [''VK_KHR_xcb_surface'']) 21]"
  let ?st2 = "?st1\<lparr>vk_physical_device := 12, vk_graphics_queue_family_index := 2\<rparr>"
  let ?st3 = "?st2\<lparr>vk_device := Owning 22 DeviceDestroy, vk_graphics_queue := 23\<rparr>"
  let ?tr3 = "?tr1 @ [CreateDevice 12 (device_create_info_for [1] 2) 22, GetQueue 22 2 0]"
  have s1: "create_instance example_env (initial_state 0) [] = (None, ?st1, ?tr1)"
    by (simp add: create_instance_eq example_env_sel initial_state_sel)
  have sc: "scan_physical_devices example_env [11, 12] ?st1 = ?st2"
    by (rule example_scan) (simp add: initial_state_sel)
  have s2: "choose_physical_device example_env ?st1 ?tr1 = (None, ?st2, ?tr1)"
    by (simp add: choose_physical_device_def example_env_sel sc VK_NULL_HANDLE_def Let_def
        del: scan_physical_devices.simps)
  have s3: "create_device example_env ?st2 ?tr1 = (None, ?st3, ?tr3)"
    by (simp add: create_device_eq example_env_sel initial_state_sel)
  have s4: "create_command_pool example_env ?st3 ?tr3 =
      (None, ?st3\<lparr>vk_command_pool := Owning 24 CommandPoolDestroy\<rparr>,
       ?tr3 @ [CreateCommandPool 22
         \<lparr>cpci_queueFamilyIndex = 2, cpci_flags = [eResetCommandBuffer]\<rparr> 24])"
    by (simp add: create_command_pool_eq example_env_sel initial_state_sel
        CommandPoolCreateInfo_def)
  show ?thesis
    unfolding VulkanState_ctor_def s1 and_then_simps s2 s3 s4
    by (simp add: initial_state_def)
qed

text \<open>
  C6. A construction that succeeded has created the instance, then the device, then
  (after fetching the queue) the command pool, and made no other driver call. The
  destructor then makes exactly three driver calls, in the reverse order: it destroys the
  command pool, on the device that the constructor created; it destroys that device; it
  destroys the instance. Replayed after the calls of the construction, none of them
  violates a lifetime: the device is live when the pool is destroyed on it, no pool is
  left when the device is destroyed, no device is left when the instance is destroyed,
  and nothing is allocated at the end.
\<close>

theorem teardown_reverse_order:
  assumes ok: "VulkanState_ctor e u = (Inr st, tr)"
  shows "\<exists>i d cp.
           tr = [CreateInstance (instance_create_info_for (vulkan_extensions e)) i,
                 CreateDevice (vk_physical_device st)
                   (device_create_info_for
                      (physical_device_queue_family_indices e (vk_physical_device st))
                      (vk_graphics_queue_family_index st)) d,
                 GetQueue d (vk_graphics_queue_family_index st) 0,
                 CreateCommandPool d
                   \<lparr>cpci_queueFamilyIndex = vk_graphics_queue_family_index st,
                    cpci_flags = [eResetCommandBuffer]\<rparr> cp] \<and>
           lifetimes [] tr = Some [CommandPool d cp, Device d, Instance i] \<and>
           VulkanState_dtor st =
             [DestroyCommandPool d cp, DestroyDevice d, DestroyInstance i] \<and>
           lifetimes [] (tr @ [DestroyCommandPool d cp]) = Some [Device d, Instance i] \<and>
           lifetimes [] (tr @ [DestroyCommandPool d cp, DestroyDevice d]) =
             Some [Instance i] \<and>
           lifetimes [] (tr @ VulkanState_dtor st) = Some []"
proof -
  from VulkanState_ctor_success [OF ok] obtain i d cp where
    m: "vk_instance st = Owning i InstanceDestroy" "vk_device st = Owning d DeviceDestroy"
       "vk_command_pool st = Owning cp CommandPoolDestroy"
    and tr: "tr = [CreateInstance (instance_create_info_for (vulkan_extensions e)) i,
                 CreateDevice (vk_physical_device st)
                   (device_create_info_for
                      (physical_device_queue_family_indices e (vk_physical_device st))
                      (vk_graphics_queue_family_index st)) d,
                 GetQueue d (vk_graphics_queue_family_index st) 0,
                 CreateCommandPool d
                   \<lparr>cpci_queueFamilyIndex = vk_graphics_queue_family_index st,
                    cpci_flags = [eResetCommandBuffer]\<rparr> cp]"
    by blast
  have d: "VulkanState_dtor st = [DestroyCommandPool d cp, DestroyDevice d, DestroyInstance i]"
    by (simp add: VulkanState_dtor_def destroy_members_eq m device_def)
  have l: "lifetimes [] tr = Some [CommandPool d cp, Device d, Instance i]"
    unfolding tr by simp
  have l1: "lifetimes [] (tr @ [DestroyCommandPool d cp]) = Some [Device d, Instance i]"
    unfolding tr by simp
  have l2: "lifetimes [] (tr @ [DestroyCommandPool d cp, DestroyDevice d]) = Some [Instance i]"
    unfolding tr by simp
  have l3: "lifetimes [] (tr @ VulkanState_dtor st) = Some []"
    unfolding d tr by simp
  from tr l d l1 l2 l3 show ?thesis by blast
qed

text \<open>The concrete collaborators: instance 21, device 22, command pool 24.\<close>

theorem teardown_reverse_order_witness:
  "VulkanState_dtor
     \<lparr>vk_instance = Owning 21 InstanceDestroy, vk_device = Owning 22 DeviceDestroy,
      vk_command_pool = Owning 24 CommandPoolDestroy, vk_physical_device = 12,
      vk_graphics_queue = 23, vk_graphics_queue_family_index = 2\<rparr> =
   [DestroyCommandPool 22 24, DestroyDevice 22, DestroyInstance 21] \<and>
   lifetimes [] (snd (VulkanState_ctor example_env 0)) =
     Some [CommandPool 22 24, Device 22, Instance 21] \<and>
   lifetimes []
     (snd (VulkanState_ctor example_env 0) @
      [DestroyCommandPool 22 24, DestroyDevice 22, DestroyInstance 21]) = Some []"
proof -
  from teardown_reverse_order [OF example_ctor] obtain i d cp where
    c: "[CreateInstance (instance_create_info_for [''VK_KHR_xcb_surface'']) 21,
         CreateDevice 12 (device_create_info_for [1] 2) 22,
         GetQueue 22 2 0,
         CreateCommandPool 22
           \<lparr>cpci_queueFamilyIndex = 2, cpci_flags = [eResetCommandBuffer]\<rparr> 24] =
        [CreateInstance (instance_create_info_for (vulkan_extensions example_env)) i,
         CreateDevice 12
           (device_create_info_for (physical_device_queue_family_indices example_env 12) 2) d,
         GetQueue d 2 0,
         CreateCommandPool d
           \<lparr>cpci_queueFamilyIndex = 2, cpci_flags = [eResetCommandBuffer]\<rparr> cp]"
    and l: "lifetimes []
          [CreateInstance (instance_create_info_for [''VK_KHR_xcb_surface'']) 21,
           CreateDevice 12 (device_create_info_for [1] 2) 22,
           GetQueue 22 2 0,
           CreateCommandPool 22
             \<lparr>cpci_queueFamilyIndex = 2, cpci_flags = [eResetCommandBuffer]\<rparr> 24] =
        Some [CommandPool d cp, Device d, Instance i]"
    and d: "VulkanState_dtor
       \<lparr>vk_instance = Owning 21 InstanceDestroy, vk_device = Owning 22 DeviceDestroy,
        vk_command_pool = Owning 24 CommandPoolDestroy, vk_physical_device = 12,
        vk_graphics_queue = 23, vk_graphics_queue_family_index = 2\<rparr> =
       [DestroyCommandPool d cp, DestroyDevice d, DestroyInstance i]"
    and e: "lifetimes []
         ([CreateInstance (instance_create_info_for [''VK_KHR_xcb_surface'']) 21,
           CreateDevice 12 (device_create_info_for [1] 2) 22,
           GetQueue 22 2 0,
           CreateCommandPool 22
             \<lparr>cpci_queueFamilyIndex = 2, cpci_flags = [eResetCommandBuffer]\<rparr> 24] @
          VulkanState_dtor
            \<lparr>vk_instance = Owning 21 InstanceDestroy, vk_device = Owning 22 DeviceDestroy,
             vk_command_pool = Owning 24 CommandPoolDestroy, vk_physical_device = 12,
             vk_graphics_queue = 23, vk_graphics_queue_family_index = 2\<rparr>) = Some []"
    by simp
  from c have "d = 22" "cp = 24" "i = 21" by simp_all
  with l d e show ?thesis by (simp add: example_ctor)
qed

section \<open>The diagnostics reporter\<close>

lemma of_char_hex_digit:
  assumes "d < 16"
  shows "(of_char (hex_digit d) :: nat) = (if d < 10 then 48 + d else 55 + d)"
proof -
  from assms have "d \<in> {0, 1, 2, 3, 4, 5, 6, 7, 8, 9, 10, 11, 12, 13, 14, 15}"
    by simp arith
  then show ?thesis
    by (auto simp: hex_digit_def)
qed

lemma of_char_dec_digit:
  assumes "d < 10"
  shows "(of_char (dec_digit d) :: nat) = 48 + d"
proof -
  from assms have "d \<in> {0, 1, 2, 3, 4, 5, 6, 7, 8, 9}"
    by simp arith
  then show ?thesis
    by (auto simp: dec_digit_def)
qed

lemma digit_value_hex_digit: "d < 16 \<Longrightarrow> digit_value (hex_digit d) = d"
  by (simp add: digit_value_def of_char_hex_digit)

lemma digit_value_dec_digit: "d < 10 \<Longrightarrow> digit_value (dec_digit d) = d"
  by (simp add: digit_value_def of_char_dec_digit)

lemma read_digits_snoc: "read_digits b (cs @ [c]) = read_digits b cs * b + digit_value c"
  by (simp add: read_digits_def)

text \<open>\<open>%X\<close> prints the hexadecimal numeral of its argument and \<open>%u\<close> the decimal one.\<close>

lemma read_digits_fmt_X: "read_digits 16 (fmt_X n) = n"
proof (induction n rule: fmt_X.induct)
  case (1 n)
  show ?case
  proof (cases "n < 16")
    case True
    then show ?thesis by (simp add: fmt_X.simps read_digits_def digit_value_hex_digit)
  next
    case False
    with 1 have "read_digits 16 (fmt_X (n div 16)) = n div 16" by simp
    with False show ?thesis
      by (subst fmt_X.simps) (simp add: read_digits_snoc digit_value_hex_digit)
  qed
qed

lemma read_digits_fmt_u: "read_digits 10 (fmt_u n) = n"
proof (induction n rule: fmt_u.induct)
  case (1 n)
  show ?case
  proof (cases "n < 10")
    case True
    then show ?thesis by (simp add: fmt_u.simps read_digits_def digit_value_dec_digit)
  next
    case False
    with 1 have "read_digits 10 (fmt_u (n div 10)) = n div 10" by simp
    with False show ?thesis
      by (subst fmt_u.simps) (simp add: read_digits_snoc digit_value_dec_digit)
  qed
qed

lemma hex_digit_not_newline: "d < 16 \<Longrightarrow> hex_digit d \<noteq> CHR 0x0A"
proof
  assume d: "d < 16" and "hex_digit d = CHR 0x0A"
  then have "(of_char (hex_digit d) :: nat) = of_char (CHR 0x0A)" by simp
  with d show False by (simp add: of_char_hex_digit split: if_splits)
qed

lemma dec_digit_not_newline: "d < 10 \<Longrightarrow> dec_digit d \<noteq> CHR 0x0A"
proof
  assume d: "d < 10" and "dec_digit d = CHR 0x0A"
  then have "(of_char (dec_digit d) :: nat) = of_char (CHR 0x0A)" by simp
  with d show False by (simp add: of_char_dec_digit)
qed

lemma fmt_X_no_newline: "CHR 0x0A \<notin> set (fmt_X n)"
proof (induction n rule: fmt_X.induct)
  case (1 n)
  show ?case
  proof (cases "n < 16")
    case True
    then show ?thesis using hex_digit_not_newline [of n] by (auto simp: fmt_X.simps)
  next
    case False
    with 1 have "CHR 0x0A \<notin> set (fmt_X (n div 16))" by simp
    with False show ?thesis
      using hex_digit_not_newline [of "n mod 16"]
      by (subst fmt_X.simps) auto
  qed
qed

lemma fmt_u_no_newline: "CHR 0x0A \<notin> set (fmt_u n)"
proof (induction n rule: fmt_u.induct)
  case (1 n)
  show ?case
  proof (cases "n < 10")
    case True
    then show ?thesis using dec_digit_not_newline [of n] by (auto simp: fmt_u.simps)
  next
    case False
    with 1 have "CHR 0x0A \<notin> set (fmt_u (n div 10))" by simp
    with False show ?thesis
      using dec_digit_not_newline [of "n mod 10"]
      by (subst fmt_u.simps) auto
  qed
qed

lemma one_line:
  "CHR 0x0A \<notin> set cs \<Longrightarrow> count_list (cs @ [CHR 0x0A]) (CHR 0x0A) = 1"
  by (simp add: count_list_0_iff)

lemma log_info_eq:
  "log_info e st =
     ([''    Vendor ID:      0x''
          @ fmt_X (unat (vendorID (getProperties e (physical_device st)))) @ [CHR 0x0A],
       ''    Device ID:      0x''
          @ fmt_X (unat (deviceID (getProperties e (physical_device st)))) @ [CHR 0x0A],
       ''    Device Name:    ''
          @ fmt_s (deviceName (getProperties e (physical_device st))) @ [CHR 0x0A],
       ''    Driver Version: ''
          @ fmt_u (unat (driverVersion (getProperties e (physical_device st)))) @ [CHR 0x0A]],
      st)"
  by (simp add: log_info_def Let_def)

lemma log_info_times_eq:
  "log_info_times n e st = (concat (replicate n (fst (log_info e st))), st)"
  by (induction n) (simp_all add: log_info_def Let_def)

text \<open>
  C9, as the claim states it, fails: the device name is printed as the driver gives it,
  so a name with a line break in it makes the third message two lines, and the report
  five lines.
\<close>

theorem log_info_five_lines_counterexample:
  "log_info two_line_name_env ((initial_state 0)\<lparr>vk_physical_device := 12\<rparr>) =
     ([''    Vendor ID:      0x8086'' @ [CHR 0x0A],
       ''    Device ID:      0x1912'' @ [CHR 0x0A],
       ''    Device Name:    A'' @ [CHR 0x0A] @ ''B'' @ [CHR 0x0A],
       ''    Driver Version: 71307264'' @ [CHR 0x0A]],
      (initial_state 0)\<lparr>vk_physical_device := 12\<rparr>) \<and>
   count_list
     (concat (fst (log_info two_line_name_env ((initial_state 0)\<lparr>vk_physical_device := 12\<rparr>))))
     (CHR 0x0A) = 5"
proof -
  have l: "log_info two_line_name_env ((initial_state 0)\<lparr>vk_physical_device := 12\<rparr>) =
     ([''    Vendor ID:      0x8086'' @ [CHR 0x0A],
       ''    Device ID:      0x1912'' @ [CHR 0x0A],
       ''    Device Name:    A'' @ [CHR 0x0A] @ ''B'' @ [CHR 0x0A],
       ''    Driver Version: 71307264'' @ [CHR 0x0A]],
      (initial_state 0)\<lparr>vk_physical_device := 12\<rparr>)"
    by (simp add: log_info_eq two_line_name_env_def fmt_X.simps fmt_u.simps hex_digit_def
        dec_digit_def fmt_s_def)
  show ?thesis
    unfolding l by simp
qed

text \<open>
  C9, amended. For every chosen physical device, \<open>log_info\<close> emits exactly four messages,
  in this order and with exactly these characters: the four fixed labels of the text
  contract, each followed by the vendor id in upper-case hexadecimal after \<open>0x\<close>, the
  device id likewise, the device name up to its terminating NUL, and the driver version
  in decimal, each ended by a newline. When the device name has no newline of its own,
  every message is one line and the report is exactly four lines. The members are left
  as they were, and calling it \<open>n\<close> times emits the same four messages \<open>n\<close> times and
  still leaves the members as they were.
\<close>

theorem log_info_four_lines:
  "log_info e st =
     ([''    Vendor ID:      0x''
          @ fmt_X (unat (vendorID (getProperties e (physical_device st)))) @ [CHR 0x0A],
       ''    Device ID:      0x''
          @ fmt_X (unat (deviceID (getProperties e (physical_device st)))) @ [CHR 0x0A],
       ''    Device Name:    ''
          @ fmt_s (deviceName (getProperties e (physical_device st))) @ [CHR 0x0A],
       ''    Driver Version: ''
          @ fmt_u (unat (driverVersion (getProperties e (physical_device st)))) @ [CHR 0x0A]],
      st) \<and>
   length (fst (log_info e st)) = 4 \<and>
   (CHR 0x0A \<notin> set (fmt_s (deviceName (getProperties e (physical_device st)))) \<longrightarrow>
      list_all (\<lambda>m. count_list m (CHR 0x0A) = 1 \<and> last m = CHR 0x0A) (fst (log_info e st)) \<and>
      count_list (concat (fst (log_info e st))) (CHR 0x0A) = 4) \<and>
   log_info_times n e st = (concat (replicate n (fst (log_info e st))), st)"
proof (intro conjI impI)
  show "log_info e st =
     ([''    Vendor ID:      0x''
          @ fmt_X (unat (vendorID (getProperties e (physical_device st)))) @ [CHR 0x0A],
       ''    Device ID:      0x''
          @ fmt_X (unat (deviceID (getProperties e (physical_device st)))) @ [CHR 0x0A],
       ''    Device Name:    ''
          @ fmt_s (deviceName (getProperties e (physical_device st))) @ [CHR 0x0A],
       ''    Driver Version: ''
          @ fmt_u (unat (driverVersion (getProperties e (physical_device st)))) @ [CHR 0x0A]],
      st)"
    by (rule log_info_eq)
  show "length (fst (log_info e st)) = 4"
    by (simp add: log_info_eq)
  show "log_info_times n e st = (concat (replicate n (fst (log_info e st))), st)"
    by (rule log_info_times_eq)
  assume name: "CHR 0x0A \<notin> set (fmt_s (deviceName (getProperties e (physical_device st))))"
  then show "list_all (\<lambda>m. count_list m (CHR 0x0A) = 1 \<and> last m = CHR 0x0A)
      (fst (log_info e st))"
    unfolding log_info_eq fst_conv
    using fmt_X_no_newline fmt_u_no_newline
    by (simp add: count_list_0_iff)
  from name show "count_list (concat (fst (log_info e st))) (CHR 0x0A) = 4"
    unfolding log_info_eq fst_conv
    using fmt_X_no_newline fmt_u_no_newline
    by (simp add: count_list_0_iff)
qed

text \<open>The device of the concrete driver: vendor 0x8086, device 0x1912, a name without a
  line break, followed by a NUL and a stray character, driver version 71307264.\<close>

theorem log_info_four_lines_witness:
  "CHR 0x0A \<notin> set (fmt_s (deviceName (getProperties example_env 12))) \<and>
   log_info example_env
     ((initial_state 0)\<lparr>vk_physical_device := 12\<rparr>) =
     ([''    Vendor ID:      0x8086'' @ [CHR 0x0A],
       ''    Device ID:      0x1912'' @ [CHR 0x0A],
       ''    Device Name:    Intel HD 530'' @ [CHR 0x0A],
       ''    Driver Version: 71307264'' @ [CHR 0x0A]],
      (initial_state 0)\<lparr>vk_physical_device := 12\<rparr>) \<and>
   count_list
     (concat (fst (log_info example_env ((initial_state 0)\<lparr>vk_physical_device := 12\<rparr>))))
     (CHR 0x0A) = 4 \<and>
   log_info_times (Suc (Suc 0)) example_env ((initial_state 0)\<lparr>vk_physical_device := 12\<rparr>) =
     ([''    Vendor ID:      0x8086'' @ [CHR 0x0A],
       ''    Device ID:      0x1912'' @ [CHR 0x0A],
       ''    Device Name:    Intel HD 530'' @ [CHR 0x0A],
       ''    Driver Version: 71307264'' @ [CHR 0x0A],
       ''    Vendor ID:      0x8086'' @ [CHR 0x0A],
       ''    Device ID:      0x1912'' @ [CHR 0x0A],
       ''    Device Name:    Intel HD 530'' @ [CHR 0x0A],
       ''    Driver Version: 71307264'' @ [CHR 0x0A]],
      (initial_state 0)\<lparr>vk_physical_device := 12\<rparr>)"
proof -
  let ?st = "(initial_state 0)\<lparr>vk_physical_device := 12\<rparr>"
  have x1: "fmt_X (unat (vendorID (getProperties example_env (physical_device ?st)))) =
      ''8086''"
    by (simp add: example_env_properties fmt_X.simps hex_digit_def)
  have x2: "fmt_X (unat (deviceID (getProperties example_env (physical_device ?st)))) =
      ''1912''"
    by (simp add: example_env_properties fmt_X.simps hex_digit_def)
  have u: "fmt_u (unat (driverVersion (getProperties example_env (physical_device ?st)))) =
      ''71307264''"
    by (simp add: example_env_properties fmt_u.simps dec_digit_def)
  have s: "fmt_s (deviceName (getProperties example_env (physical_device ?st))) =
      ''Intel HD 530''"
    by (simp add: example_env_properties fmt_s_def)
  have name: "CHR 0x0A \<notin> set (fmt_s (deviceName (getProperties example_env 12)))"
    by (simp add: example_env_properties fmt_s_def)
  then have name': "CHR 0x0A \<notin>
      set (fmt_s (deviceName (getProperties example_env (physical_device ?st))))"
    by (simp add: physical_device_def)
  from log_info_four_lines [of example_env ?st "Suc (Suc 0)"] name'
  have four: "count_list (concat (fst (log_info example_env ?st))) (CHR 0x0A) = 4"
    by blast
  from log_info_four_lines [of example_env ?st "Suc (Suc 0)"]
  have "log_info example_env ?st =
     ([''    Vendor ID:      0x'' @ ''8086'' @ [CHR 0x0A],
       ''    Device ID:      0x'' @ ''1912'' @ [CHR 0x0A],
       ''    Device Name:    '' @ ''Intel HD 530'' @ [CHR 0x0A],
       ''    Driver Version: '' @ ''71307264'' @ [CHR 0x0A]], ?st)"
    and "log_info_times (Suc (Suc 0)) example_env ?st =
       (concat (replicate (Suc (Suc 0)) (fst (log_info example_env ?st))), ?st)"
    unfolding x1 x2 u s by blast+
  with name four show ?thesis by simp
qed

section \<open>Ownership: every callback exactly once\<close>

lemma sum_list_update:
  fixes f :: "'a \<Rightarrow> 'b::cancel_comm_monoid_add"
  shows "i < length xs \<Longrightarrow>
         sum_list (map f (xs[i := y])) + f (xs ! i) = sum_list (map f xs) + f y"
  by (induction xs arbitrary: i)
     (auto simp: nth_Cons' list_update_code add_ac split: nat.splits)

lemma held_update:
  "i < length ws \<Longrightarrow>
   held (ws[i := w]) + mset (mr_release (ws ! i)) = held ws + mset (mr_release w)"
  unfolding held_def by (rule sum_list_update)

lemma held_append: "held (ws @ [w]) = held ws + mset (mr_release w)"
  by (simp add: held_def)

text \<open>One operation keeps the account: what the wrappers still owe and what has been
  invoked grows by what the operation constructs, and by nothing else.\<close>

lemma mr_exec_account:
  "mr_exec op (ws, l) = (ws', l') \<Longrightarrow>
   held ws' + mset l' = held ws + mset l + mset (constructed [op])"
proof (induction op "(ws, l)" rule: mr_exec.induct)
  case (1 r d)
  then show ?case by (auto simp: held_append)
next
  case (2 b)
  then show ?case
    using held_update [of b ws Empty]
    by (auto simp: held_append mr_move_def split: if_splits)
next
  case (3 a b)
  show ?case
  proof (cases "a < length ws \<and> b < length ws")
    case False
    with 3 show ?thesis by auto
  next
    case True
    with 3 have ws': "ws' = ws[a := ws ! b, b := Empty]" and l': "l' = l @ mr_release (ws ! a)"
      by (auto simp: mr_move_assign_def)
    show ?thesis
    proof (cases "a = b")
      case True
      with ws' l' held_update [of a ws Empty] \<open>a < length ws \<and> b < length ws\<close>
      show ?thesis by (simp add: ac_simps)
    next
      case False
      from True have 1: "held (ws[a := ws ! b]) + mset (mr_release (ws ! a)) =
          held ws + mset (mr_release (ws ! b))"
        by (simp add: held_update)
      from True False
      have 2: "held (ws[a := ws ! b, b := Empty]) + mset (mr_release (ws ! b)) =
          held (ws[a := ws ! b])"
        using held_update [of b "ws[a := ws ! b]" Empty] by simp
      have "held ws' + mset (mr_release (ws ! a)) + mset (mr_release (ws ! b)) =
            held ws + mset (mr_release (ws ! b))"
        using 1 2 ws' by (metis add.assoc add.commute)
      then have "held ws' + mset (mr_release (ws ! a)) = held ws"
        by simp
      with l' show ?thesis by (simp add: ac_simps)
    qed
  qed
next
  case (4 a)
  then show ?case
    using held_update [of a ws Empty]
    by (auto simp: mr_reset_def ac_simps split: if_splits)
next
  case (5 a)
  then show ?case
    using held_update [of a ws Empty]
    by (auto simp: mr_destroy_def ac_simps split: if_splits)
qed

lemma constructed_Cons: "constructed (op # ops) = constructed [op] @ constructed ops"
  by (cases op) simp_all

lemma constructed_append: "constructed (xs @ ys) = constructed xs @ constructed ys"
proof (induction xs)
  case Nil
  then show ?case by simp
next
  case (Cons op xs)
  then show ?case
    using constructed_Cons [of op "xs @ ys"] constructed_Cons [of op xs] by simp
qed

lemma mr_run_account:
  "mr_run ops (ws, l) = (ws', l') \<Longrightarrow>
   held ws' + mset l' = held ws + mset l + mset (constructed ops)"
proof (induction ops arbitrary: ws l)
  case Nil
  then show ?case by simp
next
  case (Cons op ops)
  obtain ws1 l1 where step: "mr_exec op (ws, l) = (ws1, l1)"
    by (cases "mr_exec op (ws, l)") auto
  with Cons.prems have "mr_run ops (ws1, l1) = (ws', l')" by simp
  from Cons.IH [OF this] mr_exec_account [OF step] constructed_Cons [of op ops]
  show ?case by (simp add: ac_simps)
qed

lemma constructed_ScopeExit: "constructed (map ScopeExit is) = []"
  by (induction "is") simp_all

text \<open>Scope exits leave the number of wrappers alone, empty the wrappers they name and
  keep empty wrappers empty.\<close>

lemma mr_run_ScopeExit:
  "mr_run (map ScopeExit is) (ws, l) = (ws', l') \<Longrightarrow>
   length ws' = length ws \<and>
   (\<forall>j < length ws. j \<in> set is \<or> ws ! j = Empty \<longrightarrow> ws' ! j = Empty)"
proof (induction "is" arbitrary: ws l)
  case Nil
  then show ?case by simp
next
  case (Cons a "is")
  show ?case
  proof (cases "a < length ws")
    case False
    with Cons.prems have "mr_run (map ScopeExit is) (ws, l) = (ws', l')" by simp
    from Cons.IH [OF this] False show ?thesis by auto
  next
    case True
    with Cons.prems
    have "mr_run (map ScopeExit is) (ws[a := Empty], l @ mr_release (ws ! a)) = (ws', l')"
      by (simp add: mr_destroy_def)
    from Cons.IH [OF this] True show ?thesis
      by (auto simp: nth_list_update)
  qed
qed

lemma mr_exit_all_empty:
  assumes "mr_exit_all (ws, l) = (ws', l')"
  shows "list_all (\<lambda>w. w = Empty) ws'"
proof -
  from assms have "mr_run (map ScopeExit (rev [0..<length ws])) (ws, l) = (ws', l')"
    by (simp add: mr_exit_all_def)
  from mr_run_ScopeExit [OF this] show ?thesis
    by (auto simp: list_all_length)
qed

lemma held_empty: "list_all (\<lambda>w. w = Empty) ws \<Longrightarrow> held ws = {#}"
  by (induction ws) (simp_all add: held_def)

text \<open>
  C4. For every program over ownership wrappers (construction from a resource and a
  callback, move construction, move assignment, explicit reset, scope exit, in any number
  and order), once every wrapper has gone out of scope the callbacks that were invoked
  are, each exactly once, the callbacks of the wrappers that were constructed from a
  resource, and every wrapper is empty. A live wrapper invokes its callback, once, at its
  scope exit; after a reset, a scope exit or a move away from it, its scope exit invokes
  nothing, and so does the scope exit of the source of a move assignment; a move
  assignment invokes the callback of what the target owned before.
\<close>

theorem owning_resource_callback_exactly_once:
  "mset (snd (mr_exit_all (mr_run ops ([], [])))) = mset (constructed ops) \<and>
   list_all (\<lambda>w. w = Empty) (fst (mr_exit_all (mr_run ops ([], [])))) \<and>
   fst (mr_destroy (Owning r d)) = [(d, r)] \<and>
   fst (mr_destroy (snd (mr_destroy w))) = [] \<and>
   fst (mr_destroy (snd (mr_reset w))) = [] \<and>
   fst (mr_destroy (snd (mr_move w))) = [] \<and>
   fst (mr_destroy (fst (mr_move w))) = mr_release w \<and>
   fst (mr_move_assign lhs rhs) = mr_release lhs \<and>
   fst (mr_destroy (snd (snd (mr_move_assign lhs rhs)))) = []"
proof -
  obtain ws l where run: "mr_run ops ([], []) = (ws, l)"
    by (cases "mr_run ops ([], [])") auto
  obtain ws' l' where exit: "mr_exit_all (ws, l) = (ws', l')"
    by (cases "mr_exit_all (ws, l)") auto
  from mr_run_account [OF run] have a1: "held ws + mset l = mset (constructed ops)"
    by (simp add: held_def)
  from exit have "mr_run (map ScopeExit (rev [0..<length ws])) (ws, l) = (ws', l')"
    by (simp add: mr_exit_all_def)
  from mr_run_account [OF this] have a2: "held ws' + mset l' = held ws + mset l"
    by (simp add: constructed_ScopeExit)
  from mr_exit_all_empty [OF exit] have e: "list_all (\<lambda>w. w = Empty) ws'" .
  with a1 a2 have "mset l' = mset (constructed ops)"
    by (simp add: held_empty)
  with e run exit show ?thesis
    by (simp add: mr_destroy_def mr_reset_def mr_move_def mr_move_assign_def)
qed

text \<open>A program with two resources: the first is moved to a new wrapper, which is then
  overwritten by the second; the second's old wrapper and the first's are then reset and
  left. Each callback has been invoked once at the end.\<close>

theorem owning_resource_callback_exactly_once_witness:
  "snd (mr_exit_all
          (mr_run [New (7::nat) ''a'', MoveNew 0, New 8 ''b'', MoveAssign 1 2, Reset 0]
             ([], []))) =
     [(''a'', 7), (''b'', 8)] \<and>
   mset (snd (mr_exit_all
          (mr_run [New (7::nat) ''a'', MoveNew 0, New 8 ''b'', MoveAssign 1 2, Reset 0]
             ([], [])))) =
     {#(''a'', 7), (''b'', 8)#}"
  using owning_resource_callback_exactly_once
    [of "[New (7::nat) ''a'', MoveNew 0, New 8 ''b'', MoveAssign 1 2, Reset 0]"]
  by (simp add: mr_exit_all_def mr_move_def mr_move_assign_def mr_reset_def mr_destroy_def
      upt_rec)

end
